theory Spec2Isabelle
  imports Complex_Main
begin

section \<open>Entities of a production-system configuration\<close>

text \<open>
  Modelled from the spec: the package \<^verbatim>\<open>prodsim.data_structures\<close> (the entity classes
  \<^verbatim>\<open>TIME_MODEL_DATA\<close>, \<^verbatim>\<open>STATE_DATA_UNION\<close>, \<^verbatim>\<open>PROCESS_DATA_UNION\<close>, \<^verbatim>\<open>QueueData\<close>,
  \<^verbatim>\<open>RESOURCE_DATA_UNION\<close>, \<^verbatim>\<open>MaterialData\<close>, \<^verbatim>\<open>SinkData\<close>, \<^verbatim>\<open>SourceData\<close>) is imported by
  \<^verbatim>\<open>adapter.py\<close> but is not among the sources. Each entity is given the identifier and the
  reference fields of the spec's data-model table, which are exactly the attributes that
  \<^verbatim>\<open>adapter.py\<close> reads; every other attribute of an entity (kind-specific parameters, a
  capacity, a discriminator) is carried in one component of an arbitrary type \<open>'x\<close>.
\<close>

datatype 'x TimeModelData =
  TimeModelData (tm_ID: string) (tm_rest: 'x)

datatype 'x StateData =
  StateData (state_ID: string) (state_time_model_id: string) (state_rest: 'x)

datatype 'x ProcessData =
  ProcessData (process_ID: string) (process_time_model_id: string) (process_rest: 'x)

datatype 'x QueueData =
  QueueData (queue_ID: string) (queue_rest: 'x)

text \<open>
  A resource is the base shape or the production-capable variant, which alone carries queue
  references; \<^verbatim>\<open>isinstance(resource, ProductionResourceData)\<close> is the test for the
  second constructor.
\<close>

datatype 'x ResourceData =
  BaseResourceData (resource_ID: string) (resource_processes: "string list")
    (resource_states: "string list") (resource_rest: 'x)
| ProductionResourceData (resource_ID: string) (resource_processes: "string list")
    (resource_states: "string list") (input_queues: "string list")
    (output_queues: "string list") (resource_rest: 'x)

text \<open>
  The \<^verbatim>\<open>processes\<close> attribute of a material is a list or absent:
  \<^verbatim>\<open>isinstance(material.processes, list)\<close> holds exactly for \<open>Some ps\<close>.
\<close>

datatype 'x MaterialData =
  MaterialData (material_ID: string) (transport_process: string)
    (material_processes: "string list option") (material_rest: 'x)

datatype 'x SinkData =
  SinkData (sink_ID: string) (sink_material_type: string)
    (sink_input_queues: "string list") (sink_rest: 'x)

datatype 'x SourceData =
  SourceData (source_ID: string) (source_time_model_id: string)
    (source_material_type: string) (source_output_queues: "string list") (source_rest: 'x)


section \<open>The adapter\<close>

text \<open>
  \<^verbatim>\<open>class Adapter(ABC, BaseModel)\<close>: the two scalars, the eight collections (lists, in
  the order of the class body) and the seed.
\<close>

record 'x Adapter =
  valid_configuration :: bool
  reconfiguration_cost :: real
  time_model_data :: "'x TimeModelData list"
  state_data :: "'x StateData list"
  process_data :: "'x ProcessData list"
  queue_data :: "'x QueueData list"
  resource_data :: "'x ResourceData list"
  material_data :: "'x MaterialData list"
  sink_data :: "'x SinkData list"
  source_data :: "'x SourceData list"
  seed :: int

text \<open>
  \<^verbatim>\<open>JsonAdapter()\<close>: every field takes its declared default; pydantic does not run the
  validators on defaults.
\<close>

definition JsonAdapter :: "'x Adapter" where
  "JsonAdapter =
     \<lparr>valid_configuration = True, reconfiguration_cost = 0, time_model_data = [],
      state_data = [], process_data = [], queue_data = [], resource_data = [],
      material_data = [], sink_data = [], source_data = [], seed = 21\<rparr>"

definition get_set_of_IDs :: "('a \<Rightarrow> string) \<Rightarrow> 'a list \<Rightarrow> string set" where
  "get_set_of_IDs ID list_of_objects = set (map ID list_of_objects)"


section \<open>Errors\<close>

text \<open>
  Every validator raises \<^verbatim>\<open>ValueError\<close> with a message of one shape,
  \<^verbatim>\<open>f"The {what} {target} of {owner_kind} {owner} is not a valid {valid_kind} of {valid}."\<close>;
  the value below keeps the six parts of the message.
\<close>

datatype value_error =
  ValueError (what: string) (target: string) (owner_kind: string) (owner: string)
    (valid_kind: string) (valid_ids: "string set")

text \<open>
  The exceptions that leave \<^verbatim>\<open>read_data\<close> or an assignment:
  \<^item> \<open>KeyError k\<close>: \<^verbatim>\<open>data[k]\<close> on a document without the key \<open>k\<close>
    (the spec's \<^verbatim>\<open>MissingSection\<close>);
  \<^item> \<open>AttributeError k\<close>: \<^verbatim>\<open>.values()\<close> on a section \<open>k\<close> that is a scalar;
  \<^item> \<open>IntegerError k\<close>: pydantic's \<^verbatim>\<open>ValidationError\<close> for a value of field \<open>k\<close> that is
    no integer;
  \<^item> \<open>ParseError\<close>: the \<^verbatim>\<open>ValidationError\<close> that \<^verbatim>\<open>parse_obj_as\<close> raises on a record
    that does not decode (the spec's \<^verbatim>\<open>MalformedRecord\<close>);
  \<^item> \<open>ValidationError f errs\<close>: the \<^verbatim>\<open>ValidationError\<close> raised when field \<open>f\<close> is assigned
    and a validator of \<open>f\<close> raised for some items; \<open>errs\<close> holds, in order, the position
    of each such item in the assigned list and the \<^verbatim>\<open>ValueError\<close> raised for it (the
    spec's \<^verbatim>\<open>DanglingReference\<close>).
\<close>

datatype error =
  KeyError string
| AttributeError string
| IntegerError string
| ParseError
| ValidationError string "(nat \<times> value_error) list"

definition bind_error :: "error + 'a \<Rightarrow> ('a \<Rightarrow> error + 'b) \<Rightarrow> error + 'b" where
  "bind_error m f = (case m of Inl e \<Rightarrow> Inl e | Inr x \<Rightarrow> f x)"


section \<open>The validators\<close>

text \<open>
  In every validator \<open>values\<close> is pydantic's dictionary of the other fields of the model;
  it is read through the field selectors of the adapter. A \<^verbatim>\<open>for\<close> loop that raises at
  the first identifier outside a set is \<open>find\<close> with the negated membership test.
\<close>

definition check_states :: "'x Adapter \<Rightarrow> 'x StateData \<Rightarrow> value_error + 'x StateData" where
  "check_states values state =
     (let time_models = get_set_of_IDs tm_ID (time_model_data values) in
      if state_time_model_id state \<notin> time_models
      then Inl (ValueError ''time model'' (state_time_model_id state) ''state''
                  (state_ID state) ''time model'' time_models)
      else Inr state)"

definition check_processes ::
  "'x Adapter \<Rightarrow> 'x ProcessData \<Rightarrow> value_error + 'x ProcessData" where
  "check_processes values process =
     (let time_models = get_set_of_IDs tm_ID (time_model_data values) in
      if process_time_model_id process \<notin> time_models
      then Inl (ValueError ''time model'' (process_time_model_id process) ''process''
                  (process_ID process) ''time model'' time_models)
      else Inr process)"

definition check_resources ::
  "'x Adapter \<Rightarrow> 'x ResourceData \<Rightarrow> value_error + 'x ResourceData" where
  "check_resources values resource =
     (let processes = get_set_of_IDs process_ID (process_data values) in
      case find (\<lambda>process. process \<notin> processes) (resource_processes resource) of
        Some process \<Rightarrow>
          Inl (ValueError ''process'' process ''resource'' (resource_ID resource)
                 ''process'' processes)
      | None \<Rightarrow>
         (let states = get_set_of_IDs state_ID (state_data values) in
          case find (\<lambda>state. state \<notin> states) (resource_states resource) of
            Some state \<Rightarrow>
              Inl (ValueError ''state'' state ''resource'' (resource_ID resource)
                     ''state'' states)
          | None \<Rightarrow>
             (case resource of
                ProductionResourceData rid ps ss iq oq rest \<Rightarrow>
                  (let queues = get_set_of_IDs queue_ID (queue_data values) in
                   case find (\<lambda>queue. queue \<notin> queues) (iq @ oq) of
                     Some queue \<Rightarrow>
                       Inl (ValueError ''queue'' queue ''resource'' (resource_ID resource)
                              ''queue'' queues)
                   | None \<Rightarrow> Inr resource)
              | BaseResourceData rid ps ss rest \<Rightarrow> Inr resource)))"

definition check_materials ::
  "'x Adapter \<Rightarrow> 'x MaterialData \<Rightarrow> value_error + 'x MaterialData" where
  "check_materials values material =
     (let processes = get_set_of_IDs process_ID (process_data values) in
      if \<not> transport_process material \<in> processes
      then Inl (ValueError ''transport process'' (transport_process material) ''material''
                  (material_ID material) ''process'' processes)
      else
        (case material_processes material of
           Some ps \<Rightarrow>
             (case find (\<lambda>process. process \<notin> processes) ps of
                Some process \<Rightarrow>
                  Inl (ValueError ''process'' process ''material'' (material_ID material)
                         ''process'' processes)
              | None \<Rightarrow> Inr material)
         | None \<Rightarrow> Inr material))"

definition check_sinks :: "'x Adapter \<Rightarrow> 'x SinkData \<Rightarrow> value_error + 'x SinkData" where
  "check_sinks values sink =
     (let materials = get_set_of_IDs material_ID (material_data values) in
      if sink_material_type sink \<notin> materials
      then Inl (ValueError ''material type'' (sink_material_type sink) ''sink''
                  (sink_ID sink) ''material'' materials)
      else
        (let queues = get_set_of_IDs queue_ID (queue_data values) in
         case find (\<lambda>q. q \<notin> queues) (sink_input_queues sink) of
           Some q \<Rightarrow>
             Inl (ValueError ''queue'' q ''sink'' (sink_ID sink) ''queue'' queues)
         | None \<Rightarrow> Inr sink))"

definition check_sources ::
  "'x Adapter \<Rightarrow> 'x SourceData \<Rightarrow> value_error + 'x SourceData" where
  "check_sources values source =
     (let time_models = get_set_of_IDs tm_ID (time_model_data values) in
      if source_time_model_id source \<notin> time_models
      then Inl (ValueError ''time model'' (source_time_model_id source) ''source''
                  (source_ID source) ''time model'' time_models)
      else
        (let materials = get_set_of_IDs material_ID (material_data values) in
         if source_material_type source \<notin> materials
         then Inl (ValueError ''material type'' (source_material_type source) ''source''
                     (source_ID source) ''material'' materials)
         else
           (let queues = get_set_of_IDs queue_ID (queue_data values) in
            case find (\<lambda>q. q \<notin> queues) (source_output_queues source) of
              Some q \<Rightarrow>
                Inl (ValueError ''queue'' q ''source'' (source_ID source) ''queue'' queues)
            | None \<Rightarrow> Inr source)))"


section \<open>Assignment with \<^verbatim>\<open>validate_assignment = True\<close>\<close>

text \<open>
  \<^verbatim>\<open>@validator(field, each_item=True)\<close>: pydantic applies the validator to every item of
  the assigned list, from position \<open>i\<close> on, keeps the items that pass and records position
  and error of each item that raises; the items are entities already, which their type
  validation hands on as they are.
\<close>

primrec each_item ::
  "('a \<Rightarrow> value_error + 'a) \<Rightarrow> nat \<Rightarrow> 'a list \<Rightarrow> (nat \<times> value_error) list \<times> 'a list" where
  "each_item check i [] = ([], [])"
| "each_item check i (v # vs) =
     (case check v of
        Inl e \<Rightarrow> ((i, e) # fst (each_item check (Suc i) vs), snd (each_item check (Suc i) vs))
      | Inr r \<Rightarrow> (fst (each_item check (Suc i) vs), r # snd (each_item check (Suc i) vs)))"

definition validate_field ::
  "string \<Rightarrow> ('a \<Rightarrow> value_error + 'a) \<Rightarrow> 'a list \<Rightarrow> error + 'a list" where
  "validate_field name check v =
     (case each_item check 0 v of
        ([], result) \<Rightarrow> Inr result
      | (e # errors, result) \<Rightarrow> Inl (ValidationError name (e # errors)))"

text \<open>
  \<^verbatim>\<open>self.field = value\<close>: only the validators of the assigned field run, with the current
  values of the other fields; on success the field is replaced, on failure the exception
  leaves the adapter as it was. \<^verbatim>\<open>time_model_data\<close>, \<^verbatim>\<open>queue_data\<close> and \<^verbatim>\<open>seed\<close> have no
  validator of their own.
\<close>

definition setattr_time_model_data ::
  "'x Adapter \<Rightarrow> 'x TimeModelData list \<Rightarrow> error + 'x Adapter" where
  "setattr_time_model_data self v = Inr (self\<lparr>time_model_data := v\<rparr>)"

definition setattr_state_data :: "'x Adapter \<Rightarrow> 'x StateData list \<Rightarrow> error + 'x Adapter" where
  "setattr_state_data self v =
     bind_error (validate_field ''state_data'' (check_states self) v)
       (\<lambda>v'. Inr (self\<lparr>state_data := v'\<rparr>))"

definition setattr_process_data ::
  "'x Adapter \<Rightarrow> 'x ProcessData list \<Rightarrow> error + 'x Adapter" where
  "setattr_process_data self v =
     bind_error (validate_field ''process_data'' (check_processes self) v)
       (\<lambda>v'. Inr (self\<lparr>process_data := v'\<rparr>))"

definition setattr_queue_data :: "'x Adapter \<Rightarrow> 'x QueueData list \<Rightarrow> error + 'x Adapter" where
  "setattr_queue_data self v = Inr (self\<lparr>queue_data := v\<rparr>)"

definition setattr_resource_data ::
  "'x Adapter \<Rightarrow> 'x ResourceData list \<Rightarrow> error + 'x Adapter" where
  "setattr_resource_data self v =
     bind_error (validate_field ''resource_data'' (check_resources self) v)
       (\<lambda>v'. Inr (self\<lparr>resource_data := v'\<rparr>))"

definition setattr_material_data ::
  "'x Adapter \<Rightarrow> 'x MaterialData list \<Rightarrow> error + 'x Adapter" where
  "setattr_material_data self v =
     bind_error (validate_field ''material_data'' (check_materials self) v)
       (\<lambda>v'. Inr (self\<lparr>material_data := v'\<rparr>))"

definition setattr_sink_data :: "'x Adapter \<Rightarrow> 'x SinkData list \<Rightarrow> error + 'x Adapter" where
  "setattr_sink_data self v =
     bind_error (validate_field ''sink_data'' (check_sinks self) v)
       (\<lambda>v'. Inr (self\<lparr>sink_data := v'\<rparr>))"

definition setattr_source_data ::
  "'x Adapter \<Rightarrow> 'x SourceData list \<Rightarrow> error + 'x Adapter" where
  "setattr_source_data self v =
     bind_error (validate_field ''source_data'' (check_sources self) v)
       (\<lambda>v'. Inr (self\<lparr>source_data := v'\<rparr>))"


section \<open>Documents\<close>

text \<open>
  The value of \<^verbatim>\<open>load_json\<close>: a dictionary from section names to a scalar or to a
  dictionary of raw records, which keeps the order of the file. A record key is a string in
  a file that was read and the counter of \<^verbatim>\<open>enumerate\<close> in a dictionary that
  \<^verbatim>\<open>get_dict_of_list_objects\<close> built. Raw records have an arbitrary type \<open>'r\<close>.
\<close>

datatype key = IntKey nat | StrKey string

datatype 'r dvalue = Scalar int | Section "(key \<times> 'r) list"

type_synonym 'r document = "string \<rightharpoonup> 'r dvalue"

text \<open>
  Modelled from the spec: \<^verbatim>\<open>parse_obj_as(type, values)\<close> decodes a raw record into an
  entity of the named class of \<^verbatim>\<open>prodsim.data_structures\<close> or raises, and
  \<^verbatim>\<open>data.dict()\<close> turns an entity into a raw record; both depend on the classes that are
  not among the sources, and are parameters of the model: one decoder and one encoder for
  each of the eight classes.
\<close>

record ('r, 'x) codec =
  parse_time_model :: "'r \<Rightarrow> 'x TimeModelData option"
  parse_state :: "'r \<Rightarrow> 'x StateData option"
  parse_process :: "'r \<Rightarrow> 'x ProcessData option"
  parse_queue :: "'r \<Rightarrow> 'x QueueData option"
  parse_resource :: "'r \<Rightarrow> 'x ResourceData option"
  parse_material :: "'r \<Rightarrow> 'x MaterialData option"
  parse_sink :: "'r \<Rightarrow> 'x SinkData option"
  parse_source :: "'r \<Rightarrow> 'x SourceData option"
  dict_time_model :: "'x TimeModelData \<Rightarrow> 'r"
  dict_state :: "'x StateData \<Rightarrow> 'r"
  dict_process :: "'x ProcessData \<Rightarrow> 'r"
  dict_queue :: "'x QueueData \<Rightarrow> 'r"
  dict_resource :: "'x ResourceData \<Rightarrow> 'r"
  dict_material :: "'x MaterialData \<Rightarrow> 'r"
  dict_sink :: "'x SinkData \<Rightarrow> 'r"
  dict_source :: "'x SourceData \<Rightarrow> 'r"

definition getitem :: "'r document \<Rightarrow> string \<Rightarrow> error + 'r dvalue" where
  "getitem data k = (case data k of None \<Rightarrow> Inl (KeyError k) | Some v \<Rightarrow> Inr v)"

definition dict_values :: "string \<Rightarrow> 'r dvalue \<Rightarrow> error + 'r list" where
  "dict_values k v = (case v of Section items \<Rightarrow> Inr (map snd items) | Scalar n \<Rightarrow> Inl (AttributeError k))"

primrec parse_objects :: "('r \<Rightarrow> 'e option) \<Rightarrow> 'r list \<Rightarrow> error + 'e list" where
  "parse_objects parse [] = Inr []"
| "parse_objects parse (values # rest) =
     (case parse values of
        None \<Rightarrow> Inl ParseError
      | Some obj \<Rightarrow> bind_error (parse_objects parse rest) (\<lambda>objects. Inr (obj # objects)))"

text \<open>
  \<^verbatim>\<open>self.create_objects_from_configuration_data(data[k], type)\<close>: the lookup of the
  argument, then the loop over the values of the section.
\<close>

definition create_objects_from_configuration_data ::
  "'r document \<Rightarrow> string \<Rightarrow> ('r \<Rightarrow> 'e option) \<Rightarrow> error + 'e list" where
  "create_objects_from_configuration_data data k parse =
     bind_error (getitem data k) (\<lambda>configuration_data.
     bind_error (dict_values k configuration_data) (\<lambda>raw.
     parse_objects parse raw))"

definition setattr_seed :: "'x Adapter \<Rightarrow> 'r dvalue \<Rightarrow> error + 'x Adapter" where
  "setattr_seed self v =
     (case v of Scalar n \<Rightarrow> Inr (self\<lparr>seed := n\<rparr>) | Section items \<Rightarrow> Inl (IntegerError ''seed''))"

definition read_data :: "('r, 'x) codec \<Rightarrow> 'x Adapter \<Rightarrow> 'r document \<Rightarrow> error + 'x Adapter" where
  "read_data cd self data =
     bind_error (getitem data ''seed'') (\<lambda>s.
     bind_error (setattr_seed self s) (\<lambda>self.
     bind_error (create_objects_from_configuration_data data ''time_models'' (parse_time_model cd)) (\<lambda>v.
     bind_error (setattr_time_model_data self v) (\<lambda>self.
     bind_error (create_objects_from_configuration_data data ''states'' (parse_state cd)) (\<lambda>v.
     bind_error (setattr_state_data self v) (\<lambda>self.
     bind_error (create_objects_from_configuration_data data ''processes'' (parse_process cd)) (\<lambda>v.
     bind_error (setattr_process_data self v) (\<lambda>self.
     bind_error (create_objects_from_configuration_data data ''queues'' (parse_queue cd)) (\<lambda>v.
     bind_error (setattr_queue_data self v) (\<lambda>self.
     bind_error (create_objects_from_configuration_data data ''resources'' (parse_resource cd)) (\<lambda>v.
     bind_error (setattr_resource_data self v) (\<lambda>self.
     bind_error (create_objects_from_configuration_data data ''materials'' (parse_material cd)) (\<lambda>v.
     bind_error (setattr_material_data self v) (\<lambda>self.
     bind_error (create_objects_from_configuration_data data ''sinks'' (parse_sink cd)) (\<lambda>v.
     bind_error (setattr_sink_data self v) (\<lambda>self.
     bind_error (create_objects_from_configuration_data data ''sources'' (parse_source cd)) (\<lambda>v.
     setattr_source_data self v)))))))))))))))))"





section \<open>Raw records, their decoders and their encoders\<close>
























section \<open>Resolution of references\<close>

text \<open>
  The vocabulary of the properties: the references of one entity resolve in an adapter \<open>g\<close>
  when each lies in the set of identifiers of the collection named by the data-model table.
\<close>

definition state_resolves :: "'x Adapter \<Rightarrow> 'x StateData \<Rightarrow> bool" where
  "state_resolves g s \<longleftrightarrow>
     state_time_model_id s \<in> get_set_of_IDs tm_ID (time_model_data g)"

definition process_resolves :: "'x Adapter \<Rightarrow> 'x ProcessData \<Rightarrow> bool" where
  "process_resolves g p \<longleftrightarrow>
     process_time_model_id p \<in> get_set_of_IDs tm_ID (time_model_data g)"

definition resource_queues :: "'x ResourceData \<Rightarrow> string list" where
  "resource_queues r =
     (case r of
        BaseResourceData rid ps ss rest \<Rightarrow> []
      | ProductionResourceData rid ps ss iq oq rest \<Rightarrow> iq @ oq)"

definition resource_resolves :: "'x Adapter \<Rightarrow> 'x ResourceData \<Rightarrow> bool" where
  "resource_resolves g r \<longleftrightarrow>
     list_all (\<lambda>p. p \<in> get_set_of_IDs process_ID (process_data g)) (resource_processes r) \<and>
     list_all (\<lambda>s. s \<in> get_set_of_IDs state_ID (state_data g)) (resource_states r) \<and>
     list_all (\<lambda>q. q \<in> get_set_of_IDs queue_ID (queue_data g)) (resource_queues r)"

definition material_resolves :: "'x Adapter \<Rightarrow> 'x MaterialData \<Rightarrow> bool" where
  "material_resolves g m \<longleftrightarrow>
     transport_process m \<in> get_set_of_IDs process_ID (process_data g) \<and>
     (case material_processes m of
        None \<Rightarrow> True
      | Some ps \<Rightarrow> list_all (\<lambda>p. p \<in> get_set_of_IDs process_ID (process_data g)) ps)"

definition sink_resolves :: "'x Adapter \<Rightarrow> 'x SinkData \<Rightarrow> bool" where
  "sink_resolves g k \<longleftrightarrow>
     sink_material_type k \<in> get_set_of_IDs material_ID (material_data g) \<and>
     list_all (\<lambda>q. q \<in> get_set_of_IDs queue_ID (queue_data g)) (sink_input_queues k)"

definition source_resolves :: "'x Adapter \<Rightarrow> 'x SourceData \<Rightarrow> bool" where
  "source_resolves g c \<longleftrightarrow>
     source_time_model_id c \<in> get_set_of_IDs tm_ID (time_model_data g) \<and>
     source_material_type c \<in> get_set_of_IDs material_ID (material_data g) \<and>
     list_all (\<lambda>q. q \<in> get_set_of_IDs queue_ID (queue_data g)) (source_output_queues c)"

definition references_resolve :: "'x Adapter \<Rightarrow> bool" where
  "references_resolve g \<longleftrightarrow>
     list_all (state_resolves g) (state_data g) \<and>
     list_all (process_resolves g) (process_data g) \<and>
     list_all (resource_resolves g) (resource_data g) \<and>
     list_all (material_resolves g) (material_data g) \<and>
     list_all (sink_resolves g) (sink_data g) \<and>
     list_all (source_resolves g) (source_data g)"


section \<open>A codec for concrete documents\<close>

text \<open>
  To run the loader on concrete documents the decoders need values: in the tagged codec a
  raw record is an entity under the tag of its class, or a record that no class decodes.
\<close>

datatype 'x tagged =
  TTimeModel "'x TimeModelData"
| TState "'x StateData"
| TProcess "'x ProcessData"
| TQueue "'x QueueData"
| TResource "'x ResourceData"
| TMaterial "'x MaterialData"
| TSink "'x SinkData"
| TSource "'x SourceData"
| TJunk

definition tagged_codec :: "('x tagged, 'x) codec" where
  "tagged_codec =
     \<lparr>parse_time_model = (\<lambda>r. case r of TTimeModel x \<Rightarrow> Some x | _ \<Rightarrow> None),
      parse_state = (\<lambda>r. case r of TState x \<Rightarrow> Some x | _ \<Rightarrow> None),
      parse_process = (\<lambda>r. case r of TProcess x \<Rightarrow> Some x | _ \<Rightarrow> None),
      parse_queue = (\<lambda>r. case r of TQueue x \<Rightarrow> Some x | _ \<Rightarrow> None),
      parse_resource = (\<lambda>r. case r of TResource x \<Rightarrow> Some x | _ \<Rightarrow> None),
      parse_material = (\<lambda>r. case r of TMaterial x \<Rightarrow> Some x | _ \<Rightarrow> None),
      parse_sink = (\<lambda>r. case r of TSink x \<Rightarrow> Some x | _ \<Rightarrow> None),
      parse_source = (\<lambda>r. case r of TSource x \<Rightarrow> Some x | _ \<Rightarrow> None),
      dict_time_model = TTimeModel, dict_state = TState, dict_process = TProcess,
      dict_queue = TQueue, dict_resource = TResource, dict_material = TMaterial,
      dict_sink = TSink, dict_source = TSource\<rparr>"

text \<open>
  The spec's scenario: one time model \<open>tm1\<close>, one state \<open>s1\<close> that refers to it, and the other
  six sections empty. The remaining attributes of an entity are a number here.
\<close>

definition scenario_doc :: "nat tagged document" where
  "scenario_doc =
     map_of
       [(''seed'', Scalar 7),
        (''time_models'', Section [(StrKey ''0'', TTimeModel (TimeModelData ''tm1'' 0))]),
        (''states'', Section [(StrKey ''0'', TState (StateData ''s1'' ''tm1'' 0))]),
        (''processes'', Section []),
        (''queues'', Section []),
        (''resources'', Section []),
        (''materials'', Section []),
        (''sinks'', Section []),
        (''sources'', Section [])]"

definition scenario_graph :: "nat Adapter" where
  "scenario_graph =
     \<lparr>valid_configuration = True, reconfiguration_cost = 0,
      time_model_data = [TimeModelData ''tm1'' 0],
      state_data = [StateData ''s1'' ''tm1'' 0], process_data = [], queue_data = [],
      resource_data = [], material_data = [], sink_data = [], source_data = [], seed = 7\<rparr>"

text \<open>
  A small factory with one entity of each kind and every kind of reference: a
  production-capable resource \<open>r1\<close> and a transport resource \<open>r2\<close> of the base shape.
\<close>

definition factory_graph :: "nat Adapter" where
  "factory_graph =
     \<lparr>valid_configuration = True, reconfiguration_cost = 0,
      time_model_data = [TimeModelData ''tm1'' 0],
      state_data = [StateData ''s1'' ''tm1'' 0],
      process_data = [ProcessData ''p1'' ''tm1'' 0],
      queue_data = [QueueData ''q1'' 0],
      resource_data =
        [ProductionResourceData ''r1'' [''p1''] [''s1''] [''q1''] [''q1''] 0,
         BaseResourceData ''r2'' [''p1''] [] 0],
      material_data = [MaterialData ''m1'' ''p1'' (Some [''p1'']) 0],
      sink_data = [SinkData ''k1'' ''m1'' [''q1''] 0],
      source_data = [SourceData ''c1'' ''tm1'' ''m1'' [''q1''] 0],
      seed = 21\<rparr>"

definition factory_doc :: "nat tagged document" where
  "factory_doc =
     map_of
       [(''seed'', Scalar 21),
        (''time_models'', Section [(StrKey ''a'', TTimeModel (TimeModelData ''tm1'' 0))]),
        (''states'', Section [(StrKey ''a'', TState (StateData ''s1'' ''tm1'' 0))]),
        (''processes'', Section [(StrKey ''a'', TProcess (ProcessData ''p1'' ''tm1'' 0))]),
        (''queues'', Section [(StrKey ''a'', TQueue (QueueData ''q1'' 0))]),
        (''resources'',
           Section
             [(StrKey ''a'',
               TResource (ProductionResourceData ''r1'' [''p1''] [''s1''] [''q1''] [''q1''] 0)),
              (StrKey ''b'', TResource (BaseResourceData ''r2'' [''p1''] [] 0))]),
        (''materials'', Section [(StrKey ''a'', TMaterial (MaterialData ''m1'' ''p1'' (Some [''p1'']) 0))]),
        (''sinks'', Section [(StrKey ''a'', TSink (SinkData ''k1'' ''m1'' [''q1''] 0))]),
        (''sources'', Section [(StrKey ''a'', TSource (SourceData ''c1'' ''tm1'' ''m1'' [''q1''] 0))])]"

text \<open>
  The scenario with the reference of \<open>s1\<close> changed to \<open>tm2\<close>, and a source \<open>src1\<close> that
  refers to a time model \<open>tm3\<close> and a material \<open>m1\<close>, none of which exists.
\<close>

definition two_dangling_doc :: "nat tagged document" where
  "two_dangling_doc =
     map_of
       [(''seed'', Scalar 7),
        (''time_models'', Section [(StrKey ''0'', TTimeModel (TimeModelData ''tm1'' 0))]),
        (''states'', Section [(StrKey ''0'', TState (StateData ''s1'' ''tm2'' 0))]),
        (''processes'', Section []),
        (''queues'', Section []),
        (''resources'', Section []),
        (''materials'', Section []),
        (''sinks'', Section []),
        (''sources'', Section [(StrKey ''0'', TSource (SourceData ''src1'' ''tm3'' ''m1'' [] 0))])]"

text \<open>The scenario with the reference of \<open>s1\<close> changed to \<open>tm2\<close>, which does not exist.\<close>

definition dangling_doc :: "nat tagged document" where
  "dangling_doc =
     map_of
       [(''seed'', Scalar 7),
        (''time_models'', Section [(StrKey ''0'', TTimeModel (TimeModelData ''tm1'' 0))]),
        (''states'', Section [(StrKey ''0'', TState (StateData ''s1'' ''tm2'' 0))]),
        (''processes'', Section []),
        (''queues'', Section []),
        (''resources'', Section []),
        (''materials'', Section []),
        (''sinks'', Section []),
        (''sources'', Section [])]"

text \<open>The scenario with the reference of \<open>s1\<close> changed to \<open>tm2\<close> and no section of sources.\<close>

definition no_sources_doc :: "nat tagged document" where
  "no_sources_doc =
     map_of
       [(''seed'', Scalar 7),
        (''time_models'', Section [(StrKey ''0'', TTimeModel (TimeModelData ''tm1'' 0))]),
        (''states'', Section [(StrKey ''0'', TState (StateData ''s1'' ''tm2'' 0))]),
        (''processes'', Section []),
        (''queues'', Section []),
        (''resources'', Section []),
        (''materials'', Section []),
        (''sinks'', Section [])]"

text \<open>The scenario with a second time model record that has the identifier \<open>tm1\<close> too.\<close>

definition duplicate_doc :: "nat tagged document" where
  "duplicate_doc =
     map_of
       [(''seed'', Scalar 7),
        (''time_models'',
           Section [(StrKey ''0'', TTimeModel (TimeModelData ''tm1'' 0)),
                    (StrKey ''1'', TTimeModel (TimeModelData ''tm1'' 1))]),
        (''states'', Section [(StrKey ''0'', TState (StateData ''s1'' ''tm1'' 0))]),
        (''processes'', Section []),
        (''queues'', Section []),
        (''resources'', Section []),
        (''materials'', Section []),
        (''sinks'', Section []),
        (''sources'', Section [])]"


section \<open>The result of a load, stated from the data-model table\<close>


text \<open>
  The draft graph of a document: the adapter with the seed and the eight decoded
  collections in place, before any reference is looked at.
\<close>

definition draft_graph ::
  "'x Adapter \<Rightarrow> int \<Rightarrow> 'x TimeModelData list \<Rightarrow> 'x StateData list \<Rightarrow> 'x ProcessData list \<Rightarrow>
   'x QueueData list \<Rightarrow> 'x ResourceData list \<Rightarrow> 'x MaterialData list \<Rightarrow> 'x SinkData list \<Rightarrow>
   'x SourceData list \<Rightarrow> 'x Adapter" where
  "draft_graph self n tms sts prs qs rs ms ks cs =
     self\<lparr>seed := n, time_model_data := tms, state_data := sts, process_data := prs,
       queue_data := qs, resource_data := rs, material_data := ms, sink_data := ks,
       source_data := cs\<rparr>"

text \<open>
  A reference of an entity: the kind of the reference, the identifier referred to, the kind
  of the collection it must resolve in, and the identifiers of that collection. The
  references of an entity are listed in the order in which its validator looks at them.
\<close>

type_synonym reference = "string \<times> string \<times> string \<times> string set"

definition state_references :: "'x Adapter \<Rightarrow> 'x StateData \<Rightarrow> reference list" where
  "state_references g s =
     [(''time model'', state_time_model_id s, ''time model'',
       get_set_of_IDs tm_ID (time_model_data g))]"

definition process_references :: "'x Adapter \<Rightarrow> 'x ProcessData \<Rightarrow> reference list" where
  "process_references g p =
     [(''time model'', process_time_model_id p, ''time model'',
       get_set_of_IDs tm_ID (time_model_data g))]"

definition resource_references :: "'x Adapter \<Rightarrow> 'x ResourceData \<Rightarrow> reference list" where
  "resource_references g r =
     map (\<lambda>p. (''process'', p, ''process'', get_set_of_IDs process_ID (process_data g)))
       (resource_processes r) @
     map (\<lambda>s. (''state'', s, ''state'', get_set_of_IDs state_ID (state_data g)))
       (resource_states r) @
     map (\<lambda>q. (''queue'', q, ''queue'', get_set_of_IDs queue_ID (queue_data g)))
       (resource_queues r)"

definition material_references :: "'x Adapter \<Rightarrow> 'x MaterialData \<Rightarrow> reference list" where
  "material_references g m =
     (''transport process'', transport_process m, ''process'',
      get_set_of_IDs process_ID (process_data g)) #
     map (\<lambda>p. (''process'', p, ''process'', get_set_of_IDs process_ID (process_data g)))
       (case material_processes m of None \<Rightarrow> [] | Some ps \<Rightarrow> ps)"

definition sink_references :: "'x Adapter \<Rightarrow> 'x SinkData \<Rightarrow> reference list" where
  "sink_references g k =
     (''material type'', sink_material_type k, ''material'',
      get_set_of_IDs material_ID (material_data g)) #
     map (\<lambda>q. (''queue'', q, ''queue'', get_set_of_IDs queue_ID (queue_data g)))
       (sink_input_queues k)"

definition source_references :: "'x Adapter \<Rightarrow> 'x SourceData \<Rightarrow> reference list" where
  "source_references g c =
     (''time model'', source_time_model_id c, ''time model'',
      get_set_of_IDs tm_ID (time_model_data g)) #
     (''material type'', source_material_type c, ''material'',
      get_set_of_IDs material_ID (material_data g)) #
     map (\<lambda>q. (''queue'', q, ''queue'', get_set_of_IDs queue_ID (queue_data g)))
       (source_output_queues c)"

text \<open>
  The error for an entity of kind \<open>kind\<close> and identifier \<open>ident\<close>: it names the first of
  the entity's references whose identifier is not in the collection.
\<close>

definition first_dangling :: "string \<Rightarrow> string \<Rightarrow> reference list \<Rightarrow> value_error option" where
  "first_dangling kind ident refs =
     map_option (\<lambda>(w, t, vk, S). ValueError w t kind ident vk S)
       (find (\<lambda>(w, t, vk, S). t \<notin> S) refs)"

text \<open>
  The errors of a collection: position and error of every entity that has a dangling
  reference.
\<close>

definition collection_errors ::
  "('a \<Rightarrow> value_error option) \<Rightarrow> 'a list \<Rightarrow> (nat \<times> value_error) list" where
  "collection_errors dangling items =
     concat (map (\<lambda>(i, x). case dangling x of None \<Rightarrow> [] | Some e \<Rightarrow> [(i, e)])
               (enumerate 0 items))"

text \<open>
  The error of a graph: the errors of the first collection, in the order in which
  \<^verbatim>\<open>read_data\<close> assigns the validated fields, that has an entity with a dangling reference.
\<close>

definition dangling_reference :: "'x Adapter \<Rightarrow> error option" where
  "dangling_reference g =
     map_option (\<lambda>(field, errs). ValidationError field errs)
       (find (\<lambda>(field, errs). errs \<noteq> [])
          [(''state_data'',
            collection_errors
              (\<lambda>s. first_dangling ''state'' (state_ID s) (state_references g s))
              (state_data g)),
           (''process_data'',
            collection_errors
              (\<lambda>p. first_dangling ''process'' (process_ID p) (process_references g p))
              (process_data g)),
           (''resource_data'',
            collection_errors
              (\<lambda>r. first_dangling ''resource'' (resource_ID r) (resource_references g r))
              (resource_data g)),
           (''material_data'',
            collection_errors
              (\<lambda>m. first_dangling ''material'' (material_ID m) (material_references g m))
              (material_data g)),
           (''sink_data'',
            collection_errors
              (\<lambda>k. first_dangling ''sink'' (sink_ID k) (sink_references g k))
              (sink_data g)),
           (''source_data'',
            collection_errors
              (\<lambda>c. first_dangling ''source'' (source_ID c) (source_references g c))
              (source_data g))])"



section \<open>Lemmas on the building blocks\<close>

lemma bind_error_Inr_iff:
  "bind_error m f = Inr y \<longleftrightarrow> (\<exists>x. m = Inr x \<and> f x = Inr y)"
  by (cases m) (simp_all add: bind_error_def)

lemma bind_error_Inl_iff:
  "bind_error m f = Inl e \<longleftrightarrow> m = Inl e \<or> (\<exists>x. m = Inr x \<and> f x = Inl e)"
  by (cases m) (simp_all add: bind_error_def)

lemma bind_error_Inr [simp]: "bind_error (Inr x) f = f x"
  by (simp add: bind_error_def)

lemma bind_error_Inl [simp]: "bind_error (Inl e) f = Inl e"
  by (simp add: bind_error_def)

lemma find_None_list_all: "find (\<lambda>x. x \<notin> A) xs = None \<longleftrightarrow> list_all (\<lambda>x. x \<in> A) xs"
  by (induction xs) simp_all

lemma find_Some_not_list_all: "find (\<lambda>x. x \<notin> A) xs = Some y \<Longrightarrow> \<not> list_all (\<lambda>x. x \<in> A) xs"
  using find_None_list_all [of A xs] by simp

lemma check_states_Inr_iff:
  "check_states values s = Inr r \<longleftrightarrow> r = s \<and> state_resolves values s"
  by (auto simp: check_states_def state_resolves_def Let_def)

lemma check_processes_Inr_iff:
  "check_processes values p = Inr r \<longleftrightarrow> r = p \<and> process_resolves values p"
  by (auto simp: check_processes_def process_resolves_def Let_def)

lemma check_resources_Inr_iff:
  "check_resources values x = Inr r \<longleftrightarrow> r = x \<and> resource_resolves values x"
  by (cases x)
    (auto simp: check_resources_def resource_resolves_def resource_queues_def Let_def
      find_None_list_all dest: find_Some_not_list_all split: option.splits)

lemma check_materials_Inr_iff:
  "check_materials values m = Inr r \<longleftrightarrow> r = m \<and> material_resolves values m"
  by (auto simp: check_materials_def material_resolves_def Let_def find_None_list_all
      dest: find_Some_not_list_all split: option.splits)

lemma check_sinks_Inr_iff:
  "check_sinks values k = Inr r \<longleftrightarrow> r = k \<and> sink_resolves values k"
  by (auto simp: check_sinks_def sink_resolves_def Let_def find_None_list_all
      dest: find_Some_not_list_all split: option.splits)

lemma check_sources_Inr_iff:
  "check_sources values c = Inr r \<longleftrightarrow> r = c \<and> source_resolves values c"
  by (auto simp: check_sources_def source_resolves_def Let_def find_None_list_all
      dest: find_Some_not_list_all split: option.splits)

text \<open>
  A validator that hands its argument on, as all six do: the items pass together exactly
  when each passes, and the assigned list is then the given one.
\<close>

lemma each_item_no_errors_iff:
  assumes "\<And>x r. check x = Inr r \<longleftrightarrow> r = x \<and> ok x"
  shows "fst (each_item check i v) = [] \<longleftrightarrow> list_all ok v"
proof (induction v arbitrary: i)
  case Nil
  show ?case by simp
next
  case (Cons x v)
  show ?case
  proof (cases "check x")
    case (Inl e)
    with assms [of x] have "\<not> ok x" by auto
    with Inl show ?thesis by simp
  next
    case (Inr r)
    with assms [of x r] have "ok x" by simp
    with Inr Cons show ?thesis by simp
  qed
qed

lemma each_item_result:
  assumes "\<And>x r. check x = Inr r \<longleftrightarrow> r = x \<and> ok x"
  shows "list_all ok v \<Longrightarrow> snd (each_item check i v) = v"
proof (induction v arbitrary: i)
  case Nil
  show ?case by simp
next
  case (Cons x v)
  from Cons.prems have "ok x" and "list_all ok v" by simp_all
  with assms [of x x] have "check x = Inr x" by simp
  with Cons.IH [OF \<open>list_all ok v\<close>] show ?case by simp
qed

lemma validate_field_eq:
  assumes "\<And>x r. check x = Inr r \<longleftrightarrow> r = x \<and> ok x"
  shows "validate_field name check v =
           (if list_all ok v then Inr v
            else Inl (ValidationError name (fst (each_item check 0 v))))"
proof -
  obtain errs res where run: "each_item check 0 v = (errs, res)"
    by (cases "each_item check 0 v")
  have errs: "errs = [] \<longleftrightarrow> list_all ok v"
    using each_item_no_errors_iff [of check ok 0 v] assms run by simp
  show ?thesis
  proof (cases "list_all ok v")
    case True
    have "res = v"
      using each_item_result [of check ok v 0] assms True run by simp
    with True errs run show ?thesis
      by (simp add: validate_field_def)
  next
    case False
    with errs obtain e es where "errs = e # es"
      by (cases errs) simp_all
    with False run show ?thesis
      by (simp add: validate_field_def)
  qed
qed

lemma setattr_state_data_eq:
  "setattr_state_data self v =
     (if list_all (state_resolves self) v then Inr (self\<lparr>state_data := v\<rparr>)
      else Inl (ValidationError ''state_data'' (fst (each_item (check_states self) 0 v))))"
  by (simp add: setattr_state_data_def
      validate_field_eq [where ok = "state_resolves self", OF check_states_Inr_iff])

lemma setattr_process_data_eq:
  "setattr_process_data self v =
     (if list_all (process_resolves self) v then Inr (self\<lparr>process_data := v\<rparr>)
      else Inl (ValidationError ''process_data'' (fst (each_item (check_processes self) 0 v))))"
  by (simp add: setattr_process_data_def
      validate_field_eq [where ok = "process_resolves self", OF check_processes_Inr_iff])

lemma setattr_resource_data_eq:
  "setattr_resource_data self v =
     (if list_all (resource_resolves self) v then Inr (self\<lparr>resource_data := v\<rparr>)
      else Inl (ValidationError ''resource_data'' (fst (each_item (check_resources self) 0 v))))"
  by (simp add: setattr_resource_data_def
      validate_field_eq [where ok = "resource_resolves self", OF check_resources_Inr_iff])

lemma setattr_material_data_eq:
  "setattr_material_data self v =
     (if list_all (material_resolves self) v then Inr (self\<lparr>material_data := v\<rparr>)
      else Inl (ValidationError ''material_data'' (fst (each_item (check_materials self) 0 v))))"
  by (simp add: setattr_material_data_def
      validate_field_eq [where ok = "material_resolves self", OF check_materials_Inr_iff])

lemma setattr_sink_data_eq:
  "setattr_sink_data self v =
     (if list_all (sink_resolves self) v then Inr (self\<lparr>sink_data := v\<rparr>)
      else Inl (ValidationError ''sink_data'' (fst (each_item (check_sinks self) 0 v))))"
  by (simp add: setattr_sink_data_def
      validate_field_eq [where ok = "sink_resolves self", OF check_sinks_Inr_iff])

lemma setattr_source_data_eq:
  "setattr_source_data self v =
     (if list_all (source_resolves self) v then Inr (self\<lparr>source_data := v\<rparr>)
      else Inl (ValidationError ''source_data'' (fst (each_item (check_sources self) 0 v))))"
  by (simp add: setattr_source_data_def
      validate_field_eq [where ok = "source_resolves self", OF check_sources_Inr_iff])

lemma check_resources_cases:
  "check_resources values x = Inr x \<or> (\<exists>e. check_resources values x = Inl e)"
  using check_resources_Inr_iff [of "values" x] by (cases "check_resources values x") auto


lemma each_item_errors:
  "fst (each_item check i v) =
     concat (map (\<lambda>(j, x). case check x of Inl e \<Rightarrow> [(j, e)] | Inr r \<Rightarrow> []) (enumerate i v))"
  by (induction v arbitrary: i) (simp_all split: sum.splits)

lemma validate_field_spec:
  assumes "\<And>x. check x = (case dangling x of None \<Rightarrow> Inr x | Some e \<Rightarrow> Inl e)"
  shows "validate_field name check v =
           (case collection_errors dangling v of
              [] \<Rightarrow> Inr v
            | e # es \<Rightarrow> Inl (ValidationError name (e # es)))"
proof -
  have iff: "check x = Inr r \<longleftrightarrow> r = x \<and> dangling x = None" for x r
    using assms [of x] by (cases "dangling x") auto
  have eq: "(\<lambda>(j, x). case check x of Inl e \<Rightarrow> [(j, e)] | Inr r \<Rightarrow> []) =
        (\<lambda>(j, x). case dangling x of None \<Rightarrow> [] | Some e \<Rightarrow> [(j, e)])"
    by (auto simp: fun_eq_iff assms split: option.splits)
  have errs: "fst (each_item check 0 v) = collection_errors dangling v"
    by (simp only: each_item_errors collection_errors_def eq)
  have "validate_field name check v =
          (if list_all (\<lambda>x. dangling x = None) v then Inr v
           else Inl (ValidationError name (collection_errors dangling v)))"
    using validate_field_eq [of check "\<lambda>x. dangling x = None" name v] iff errs by simp
  moreover have "collection_errors dangling v = [] \<longleftrightarrow> list_all (\<lambda>x. dangling x = None) v"
    using each_item_no_errors_iff [of check "\<lambda>x. dangling x = None" 0 v] iff errs by simp
  ultimately show ?thesis
    by (cases "collection_errors dangling v") simp_all
qed

lemma find_append_cases:
  "find P (xs @ ys) = (case find P xs of None \<Rightarrow> find P ys | Some x \<Rightarrow> Some x)"
  by (induction xs) simp_all

lemma find_map_dangling:
  "find (\<lambda>(w, t, vk, S). t \<notin> S) (map (\<lambda>p. (w0, p, vk0, A)) xs) =
     map_option (\<lambda>p. (w0, p, vk0, A)) (find (\<lambda>p. p \<notin> A) xs)"
  by (induction xs) simp_all

lemma check_states_spec:
  "check_states values s =
     (case first_dangling ''state'' (state_ID s) (state_references values s) of
        None \<Rightarrow> Inr s | Some e \<Rightarrow> Inl e)"
  by (simp add: check_states_def first_dangling_def state_references_def Let_def)

lemma check_processes_spec:
  "check_processes values p =
     (case first_dangling ''process'' (process_ID p) (process_references values p) of
        None \<Rightarrow> Inr p | Some e \<Rightarrow> Inl e)"
  by (simp add: check_processes_def first_dangling_def process_references_def Let_def)

lemma check_resources_spec:
  "check_resources values r =
     (case first_dangling ''resource'' (resource_ID r) (resource_references values r) of
        None \<Rightarrow> Inr r | Some e \<Rightarrow> Inl e)"
  by (cases r)
    (simp_all add: check_resources_def first_dangling_def resource_references_def
      resource_queues_def Let_def find_append_cases find_map_dangling split: option.splits)

lemma check_materials_spec:
  "check_materials values m =
     (case first_dangling ''material'' (material_ID m) (material_references values m) of
        None \<Rightarrow> Inr m | Some e \<Rightarrow> Inl e)"
  by (simp add: check_materials_def first_dangling_def material_references_def
      Let_def find_map_dangling split: option.splits)

lemma check_sinks_spec:
  "check_sinks values k =
     (case first_dangling ''sink'' (sink_ID k) (sink_references values k) of
        None \<Rightarrow> Inr k | Some e \<Rightarrow> Inl e)"
  by (simp add: check_sinks_def first_dangling_def sink_references_def
      Let_def find_map_dangling split: option.splits)

lemma check_sources_spec:
  "check_sources values c =
     (case first_dangling ''source'' (source_ID c) (source_references values c) of
        None \<Rightarrow> Inr c | Some e \<Rightarrow> Inl e)"
  by (simp add: check_sources_def first_dangling_def source_references_def
      Let_def find_map_dangling split: option.splits)


lemma setattr_state_data_spec:
  "setattr_state_data self v =
     (case collection_errors
             (\<lambda>s. first_dangling ''state'' (state_ID s) (state_references self s)) v of
        [] \<Rightarrow> Inr (self\<lparr>state_data := v\<rparr>)
      | e # es \<Rightarrow> Inl (ValidationError ''state_data'' (e # es)))"
  by (simp add: setattr_state_data_def
      validate_field_spec [where check = "check_states self", OF check_states_spec]
      split: list.splits)

lemma setattr_process_data_spec:
  "setattr_process_data self v =
     (case collection_errors
             (\<lambda>p. first_dangling ''process'' (process_ID p) (process_references self p)) v of
        [] \<Rightarrow> Inr (self\<lparr>process_data := v\<rparr>)
      | e # es \<Rightarrow> Inl (ValidationError ''process_data'' (e # es)))"
  by (simp add: setattr_process_data_def
      validate_field_spec [where check = "check_processes self", OF check_processes_spec]
      split: list.splits)

lemma setattr_resource_data_spec:
  "setattr_resource_data self v =
     (case collection_errors
             (\<lambda>r. first_dangling ''resource'' (resource_ID r) (resource_references self r)) v of
        [] \<Rightarrow> Inr (self\<lparr>resource_data := v\<rparr>)
      | e # es \<Rightarrow> Inl (ValidationError ''resource_data'' (e # es)))"
  by (simp add: setattr_resource_data_def
      validate_field_spec [where check = "check_resources self", OF check_resources_spec]
      split: list.splits)

lemma setattr_material_data_spec:
  "setattr_material_data self v =
     (case collection_errors
             (\<lambda>m. first_dangling ''material'' (material_ID m) (material_references self m)) v of
        [] \<Rightarrow> Inr (self\<lparr>material_data := v\<rparr>)
      | e # es \<Rightarrow> Inl (ValidationError ''material_data'' (e # es)))"
  by (simp add: setattr_material_data_def
      validate_field_spec [where check = "check_materials self", OF check_materials_spec]
      split: list.splits)

lemma setattr_sink_data_spec:
  "setattr_sink_data self v =
     (case collection_errors
             (\<lambda>k. first_dangling ''sink'' (sink_ID k) (sink_references self k)) v of
        [] \<Rightarrow> Inr (self\<lparr>sink_data := v\<rparr>)
      | e # es \<Rightarrow> Inl (ValidationError ''sink_data'' (e # es)))"
  by (simp add: setattr_sink_data_def
      validate_field_spec [where check = "check_sinks self", OF check_sinks_spec]
      split: list.splits)

lemma setattr_source_data_spec:
  "setattr_source_data self v =
     (case collection_errors
             (\<lambda>c. first_dangling ''source'' (source_ID c) (source_references self c)) v of
        [] \<Rightarrow> Inr (self\<lparr>source_data := v\<rparr>)
      | e # es \<Rightarrow> Inl (ValidationError ''source_data'' (e # es)))"
  by (simp add: setattr_source_data_def
      validate_field_spec [where check = "check_sources self", OF check_sources_spec]
      split: list.splits)

lemma read_data_decoded:
  assumes "data ''seed'' = Some (Scalar n)"
    and "create_objects_from_configuration_data data ''time_models'' (parse_time_model cd) = Inr tms"
    and "create_objects_from_configuration_data data ''states'' (parse_state cd) = Inr sts"
    and "create_objects_from_configuration_data data ''processes'' (parse_process cd) = Inr prs"
    and "create_objects_from_configuration_data data ''queues'' (parse_queue cd) = Inr qs"
    and "create_objects_from_configuration_data data ''resources'' (parse_resource cd) = Inr rs"
    and "create_objects_from_configuration_data data ''materials'' (parse_material cd) = Inr ms"
    and "create_objects_from_configuration_data data ''sinks'' (parse_sink cd) = Inr ks"
    and "create_objects_from_configuration_data data ''sources'' (parse_source cd) = Inr cs"
  shows "read_data cd self data =
     bind_error (setattr_state_data (self\<lparr>seed := n, time_model_data := tms\<rparr>) sts) (\<lambda>a.
     bind_error (setattr_process_data a prs) (\<lambda>a.
     bind_error (setattr_resource_data (a\<lparr>queue_data := qs\<rparr>) rs) (\<lambda>a.
     bind_error (setattr_material_data a ms) (\<lambda>a.
     bind_error (setattr_sink_data a ks) (\<lambda>a.
     setattr_source_data a cs)))))"
  using assms
  by (simp add: read_data_def getitem_def setattr_seed_def setattr_time_model_data_def
      setattr_queue_data_def)


lemma read_data_result:
  assumes "data ''seed'' = Some (Scalar n)"
    and "create_objects_from_configuration_data data ''time_models'' (parse_time_model cd) = Inr tms"
    and "create_objects_from_configuration_data data ''states'' (parse_state cd) = Inr sts"
    and "create_objects_from_configuration_data data ''processes'' (parse_process cd) = Inr prs"
    and "create_objects_from_configuration_data data ''queues'' (parse_queue cd) = Inr qs"
    and "create_objects_from_configuration_data data ''resources'' (parse_resource cd) = Inr rs"
    and "create_objects_from_configuration_data data ''materials'' (parse_material cd) = Inr ms"
    and "create_objects_from_configuration_data data ''sinks'' (parse_sink cd) = Inr ks"
    and "create_objects_from_configuration_data data ''sources'' (parse_source cd) = Inr cs"
  shows "read_data cd self data =
     (case dangling_reference
             (self\<lparr>seed := n, time_model_data := tms, state_data := sts, process_data := prs,
                queue_data := qs, resource_data := rs, material_data := ms, sink_data := ks,
                source_data := cs\<rparr>) of
        None \<Rightarrow>
          Inr (self\<lparr>seed := n, time_model_data := tms, state_data := sts, process_data := prs,
                 queue_data := qs, resource_data := rs, material_data := ms, sink_data := ks,
                 source_data := cs\<rparr>)
      | Some e \<Rightarrow> Inl e)"
  unfolding read_data_decoded [OF assms]
  by (simp add: setattr_state_data_spec setattr_process_data_spec setattr_resource_data_spec
      setattr_material_data_spec setattr_sink_data_spec setattr_source_data_spec
      dangling_reference_def state_references_def process_references_def
      resource_references_def material_references_def sink_references_def
      source_references_def split: list.splits)

lemma read_data_Inr_decoded:
  assumes "read_data cd self data = Inr g"
  shows "\<exists>n tms sts prs qs rs ms ks cs.
           data ''seed'' = Some (Scalar n) \<and>
           create_objects_from_configuration_data data ''time_models'' (parse_time_model cd) = Inr tms \<and>
           create_objects_from_configuration_data data ''states'' (parse_state cd) = Inr sts \<and>
           create_objects_from_configuration_data data ''processes'' (parse_process cd) = Inr prs \<and>
           create_objects_from_configuration_data data ''queues'' (parse_queue cd) = Inr qs \<and>
           create_objects_from_configuration_data data ''resources'' (parse_resource cd) = Inr rs \<and>
           create_objects_from_configuration_data data ''materials'' (parse_material cd) = Inr ms \<and>
           create_objects_from_configuration_data data ''sinks'' (parse_sink cd) = Inr ks \<and>
           create_objects_from_configuration_data data ''sources'' (parse_source cd) = Inr cs"
  using assms
  by (auto simp: read_data_def bind_error_Inr_iff getitem_def setattr_seed_def
      split: option.splits dvalue.splits)

lemma concat_enumerate_Nil_iff:
  "concat (map (\<lambda>(i, x). case dangling x of None \<Rightarrow> [] | Some e \<Rightarrow> [(i, e)]) (enumerate n items)) = [] \<longleftrightarrow>
     list_all (\<lambda>x. dangling x = None) items"
  by (induction items arbitrary: n) (auto split: option.splits)

lemma collection_errors_Nil_iff:
  "collection_errors dangling items = [] \<longleftrightarrow> list_all (\<lambda>x. dangling x = None) items"
  unfolding collection_errors_def by (rule concat_enumerate_Nil_iff)

lemma state_dangling_None_iff:
  "first_dangling ''state'' (state_ID s) (state_references g s) = None \<longleftrightarrow> state_resolves g s"
  using check_states_Inr_iff [of g s s] check_states_spec [of g s]
  by (auto split: option.splits)

lemma process_dangling_None_iff:
  "first_dangling ''process'' (process_ID p) (process_references g p) = None \<longleftrightarrow> process_resolves g p"
  using check_processes_Inr_iff [of g p p] check_processes_spec [of g p]
  by (auto split: option.splits)

lemma resource_dangling_None_iff:
  "first_dangling ''resource'' (resource_ID r) (resource_references g r) = None \<longleftrightarrow> resource_resolves g r"
  using check_resources_Inr_iff [of g r r] check_resources_spec [of g r]
  by (auto split: option.splits)

lemma material_dangling_None_iff:
  "first_dangling ''material'' (material_ID m) (material_references g m) = None \<longleftrightarrow> material_resolves g m"
  using check_materials_Inr_iff [of g m m] check_materials_spec [of g m]
  by (auto split: option.splits)

lemma sink_dangling_None_iff:
  "first_dangling ''sink'' (sink_ID k) (sink_references g k) = None \<longleftrightarrow> sink_resolves g k"
  using check_sinks_Inr_iff [of g k k] check_sinks_spec [of g k]
  by (auto split: option.splits)

lemma source_dangling_None_iff:
  "first_dangling ''source'' (source_ID c) (source_references g c) = None \<longleftrightarrow> source_resolves g c"
  using check_sources_Inr_iff [of g c c] check_sources_spec [of g c]
  by (auto split: option.splits)

lemma dangling_reference_None_iff:
  "dangling_reference g = None \<longleftrightarrow> references_resolve g"
  by (simp add: dangling_reference_def references_resolve_def collection_errors_Nil_iff
      state_dangling_None_iff process_dangling_None_iff resource_dangling_None_iff
      material_dangling_None_iff sink_dangling_None_iff source_dangling_None_iff)

lemma dangling_reference_Some:
  "dangling_reference g = Some e \<Longrightarrow> \<exists>field errs. e = ValidationError field errs \<and> errs \<noteq> []"
  by (auto simp: dangling_reference_def split: if_splits)


text \<open>The loader run on the concrete documents.\<close>

lemmas run_defs =
  read_data_def create_objects_from_configuration_data_def getitem_def dict_values_def
  setattr_seed_def setattr_time_model_data_def setattr_queue_data_def
  setattr_state_data_def setattr_process_data_def setattr_resource_data_def
  setattr_material_data_def setattr_sink_data_def setattr_source_data_def
  validate_field_def check_states_def check_processes_def check_resources_def
  check_materials_def check_sinks_def check_sources_def get_set_of_IDs_def
  tagged_codec_def JsonAdapter_def Let_def

lemma scenario_load:
  "read_data tagged_codec JsonAdapter scenario_doc = Inr scenario_graph"
  by (simp add: run_defs scenario_doc_def scenario_graph_def)

lemma two_dangling_load:
  "read_data tagged_codec JsonAdapter two_dangling_doc =
     Inl (ValidationError ''state_data''
            [(0, ValueError ''time model'' ''tm2'' ''state'' ''s1'' ''time model'' {''tm1''})])"
  by (simp add: run_defs two_dangling_doc_def)

lemma no_sources_load:
  "read_data tagged_codec JsonAdapter no_sources_doc =
     Inl (ValidationError ''state_data''
            [(0, ValueError ''time model'' ''tm2'' ''state'' ''s1'' ''time model'' {''tm1''})])"
  by (simp add: run_defs no_sources_doc_def)

lemma duplicate_load:
  "read_data tagged_codec JsonAdapter duplicate_doc =
     Inr (scenario_graph\<lparr>time_model_data := [TimeModelData ''tm1'' 0, TimeModelData ''tm1'' 1]\<rparr>)"
  by (simp add: run_defs duplicate_doc_def scenario_graph_def)

lemma flag_load:
  "read_data tagged_codec (JsonAdapter\<lparr>valid_configuration := False\<rparr>) scenario_doc =
     Inr (scenario_graph\<lparr>valid_configuration := False\<rparr>)"
  by (simp add: run_defs scenario_doc_def scenario_graph_def)


lemmas resolves_defs =
  references_resolve_def state_resolves_def process_resolves_def resource_resolves_def
  resource_queues_def material_resolves_def sink_resolves_def source_resolves_def
  get_set_of_IDs_def

lemma factory_load:
  "read_data tagged_codec JsonAdapter factory_doc = Inr factory_graph"
  by (simp add: run_defs factory_doc_def factory_graph_def)

lemma factory_resolves: "references_resolve factory_graph"
  by (simp add: resolves_defs factory_graph_def)

lemma read_data_Inr_draft:
  assumes "read_data cd self data = Inr g"
  shows "\<exists>n tms sts prs qs rs ms ks cs.
           data ''seed'' = Some (Scalar n) \<and>
           create_objects_from_configuration_data data ''time_models'' (parse_time_model cd) = Inr tms \<and>
           create_objects_from_configuration_data data ''states'' (parse_state cd) = Inr sts \<and>
           create_objects_from_configuration_data data ''processes'' (parse_process cd) = Inr prs \<and>
           create_objects_from_configuration_data data ''queues'' (parse_queue cd) = Inr qs \<and>
           create_objects_from_configuration_data data ''resources'' (parse_resource cd) = Inr rs \<and>
           create_objects_from_configuration_data data ''materials'' (parse_material cd) = Inr ms \<and>
           create_objects_from_configuration_data data ''sinks'' (parse_sink cd) = Inr ks \<and>
           create_objects_from_configuration_data data ''sources'' (parse_source cd) = Inr cs \<and>
           g = draft_graph self n tms sts prs qs rs ms ks cs"
proof -
  from read_data_Inr_decoded [OF assms] obtain n tms sts prs qs rs ms ks cs where
    decoded: "data ''seed'' = Some (Scalar n)"
      "create_objects_from_configuration_data data ''time_models'' (parse_time_model cd) = Inr tms"
      "create_objects_from_configuration_data data ''states'' (parse_state cd) = Inr sts"
      "create_objects_from_configuration_data data ''processes'' (parse_process cd) = Inr prs"
      "create_objects_from_configuration_data data ''queues'' (parse_queue cd) = Inr qs"
      "create_objects_from_configuration_data data ''resources'' (parse_resource cd) = Inr rs"
      "create_objects_from_configuration_data data ''materials'' (parse_material cd) = Inr ms"
      "create_objects_from_configuration_data data ''sinks'' (parse_sink cd) = Inr ks"
      "create_objects_from_configuration_data data ''sources'' (parse_source cd) = Inr cs"
    by blast
  let ?g = "self\<lparr>seed := n, time_model_data := tms, state_data := sts, process_data := prs,
              queue_data := qs, resource_data := rs, material_data := ms, sink_data := ks,
              source_data := cs\<rparr>"
  have "(case dangling_reference ?g of None \<Rightarrow> Inr ?g | Some e \<Rightarrow> Inl e) = Inr g"
    using read_data_result [OF decoded, of self] assms by simp
  then have "g = ?g"
    by (simp split: option.splits)
  with decoded show ?thesis
    unfolding draft_graph_def by blast
qed

lemma list_all_filter: "list_all P xs \<Longrightarrow> list_all P (filter keep xs)"
  by (induction xs) simp_all





lemma parse_objects_Inr_iff:
  "parse_objects parse raw = Inr xs \<longleftrightarrow> map parse raw = map Some xs"
proof (induction raw arbitrary: xs)
  case Nil
  show ?case by auto
next
  case (Cons r raw)
  show ?case
  proof (cases "parse r")
    case None
    then show ?thesis by (cases xs) auto
  next
    case (Some x)
    then show ?thesis
      using Cons.IH by (cases xs) (auto simp: bind_error_Inr_iff)
  qed
qed


lemma create_objects_Inr_iff:
  "create_objects_from_configuration_data data k parse = Inr xs \<longleftrightarrow>
     (\<exists>items. data k = Some (Section items) \<and> map parse (map snd items) = map Some xs)"
  by (auto simp: create_objects_from_configuration_data_def bind_error_Inr_iff getitem_def
      dict_values_def parse_objects_Inr_iff split: option.splits dvalue.splits)






















section \<open>Claim C1: every reference of a loaded graph resolves\<close>

text \<open>
  C1. Whenever \<^verbatim>\<open>read_data\<close> returns, on whatever adapter it was called, every reference
  of every entity of the resulting adapter resolves within the adapter's own collections:
  the time model of every state and of every process is a loaded time model; the processes
  and states of every resource are loaded processes and states, and the queues of a
  production-capable resource are loaded queues; the transport process of every material,
  and every entry of its list of processes when it has one, is a loaded process; the
  material type and input queues of every sink and the time model, material type and
  output queues of every source are loaded (\<open>references_resolve\<close>).
\<close>

theorem load_references_resolve:
  assumes "read_data cd self data = Inr g"
  shows "references_resolve g"
proof -
  from read_data_Inr_decoded [OF assms] obtain n tms sts prs qs rs ms ks cs where
    decoded: "data ''seed'' = Some (Scalar n)"
      "create_objects_from_configuration_data data ''time_models'' (parse_time_model cd) = Inr tms"
      "create_objects_from_configuration_data data ''states'' (parse_state cd) = Inr sts"
      "create_objects_from_configuration_data data ''processes'' (parse_process cd) = Inr prs"
      "create_objects_from_configuration_data data ''queues'' (parse_queue cd) = Inr qs"
      "create_objects_from_configuration_data data ''resources'' (parse_resource cd) = Inr rs"
      "create_objects_from_configuration_data data ''materials'' (parse_material cd) = Inr ms"
      "create_objects_from_configuration_data data ''sinks'' (parse_sink cd) = Inr ks"
      "create_objects_from_configuration_data data ''sources'' (parse_source cd) = Inr cs"
    by blast
  let ?g = "self\<lparr>seed := n, time_model_data := tms, state_data := sts, process_data := prs,
              queue_data := qs, resource_data := rs, material_data := ms, sink_data := ks,
              source_data := cs\<rparr>"
  have "(case dangling_reference ?g of None \<Rightarrow> Inr ?g | Some e \<Rightarrow> Inl e) = Inr g"
    using read_data_result [OF decoded, of self] assms by simp
  then have "dangling_reference ?g = None" and "g = ?g"
    by (simp_all split: option.splits)
  then show ?thesis
    by (simp add: dangling_reference_None_iff)
qed

theorem load_references_resolve_witness:
  "read_data tagged_codec JsonAdapter factory_doc = Inr factory_graph \<and>
   references_resolve factory_graph"
  using load_references_resolve [OF factory_load] factory_load by simp


section \<open>Claim C2: a dangling reference makes the load fail\<close>

text \<open>
  C2, as amended. For a document whose nine sections are present and decode, if some
  reference of the draft graph does not resolve, then \<^verbatim>\<open>read_data\<close> returns no graph:
  it raises the validation error of the first collection, in the order states, processes,
  resources, materials, sinks, sources, that holds an entity with a dangling reference.
  The error lists, for every entity of that collection with a dangling reference, the
  position of the entity, its identifier, the kind of the reference, the first identifier
  that does not resolve (in the order in which the validator looks at the references) and
  the set of valid identifiers (\<open>dangling_reference\<close>). Dangling references in later
  collections, and further ones of the same entity, are not reported.
\<close>

theorem load_dangling_reference:
  assumes "data ''seed'' = Some (Scalar n)"
    and "create_objects_from_configuration_data data ''time_models'' (parse_time_model cd) = Inr tms"
    and "create_objects_from_configuration_data data ''states'' (parse_state cd) = Inr sts"
    and "create_objects_from_configuration_data data ''processes'' (parse_process cd) = Inr prs"
    and "create_objects_from_configuration_data data ''queues'' (parse_queue cd) = Inr qs"
    and "create_objects_from_configuration_data data ''resources'' (parse_resource cd) = Inr rs"
    and "create_objects_from_configuration_data data ''materials'' (parse_material cd) = Inr ms"
    and "create_objects_from_configuration_data data ''sinks'' (parse_sink cd) = Inr ks"
    and "create_objects_from_configuration_data data ''sources'' (parse_source cd) = Inr cs"
    and "\<not> references_resolve (draft_graph self n tms sts prs qs rs ms ks cs)"
  shows "\<exists>field errs. errs \<noteq> [] \<and>
           dangling_reference (draft_graph self n tms sts prs qs rs ms ks cs) =
             Some (ValidationError field errs) \<and>
           read_data cd self data = Inl (ValidationError field errs)"
proof -
  let ?g = "draft_graph self n tms sts prs qs rs ms ks cs"
  from assms(10) obtain e where e: "dangling_reference ?g = Some e"
    using dangling_reference_None_iff [of ?g] by (cases "dangling_reference ?g") auto
  then obtain field errs where shape: "e = ValidationError field errs" "errs \<noteq> []"
    using dangling_reference_Some by blast
  have "read_data cd self data = (case dangling_reference ?g of None \<Rightarrow> Inr ?g | Some e \<Rightarrow> Inl e)"
    unfolding draft_graph_def by (rule read_data_result [OF assms(1-9)])
  with e shape show ?thesis by simp
qed

theorem load_dangling_reference_witness:
  "read_data tagged_codec JsonAdapter dangling_doc =
     Inl (ValidationError ''state_data''
            [(0, ValueError ''time model'' ''tm2'' ''state'' ''s1'' ''time model'' {''tm1''})])"
proof -
  let ?g = "draft_graph JsonAdapter 7 [TimeModelData ''tm1'' 0] [StateData ''s1'' ''tm2'' 0]
              [] [] [] [] [] [] :: nat Adapter"
  have dangles: "\<not> references_resolve ?g"
    by (simp add: references_resolve_def state_resolves_def draft_graph_def get_set_of_IDs_def)
  have error: "dangling_reference ?g =
      Some (ValidationError ''state_data''
              [(0, ValueError ''time model'' ''tm2'' ''state'' ''s1'' ''time model'' {''tm1''})])"
    by (simp add: dangling_reference_def collection_errors_def first_dangling_def
        state_references_def draft_graph_def get_set_of_IDs_def)
  have "\<exists>field errs. errs \<noteq> [] \<and> dangling_reference ?g = Some (ValidationError field errs) \<and>
          read_data tagged_codec JsonAdapter dangling_doc = Inl (ValidationError field errs)"
    by (rule load_dangling_reference [OF _ _ _ _ _ _ _ _ _ dangles])
      (simp_all add: dangling_doc_def create_objects_from_configuration_data_def getitem_def
        dict_values_def tagged_codec_def)
  with error show ?thesis by auto
qed

text \<open>
  The claim as stated fails where two references dangle: in the document below the source
  \<open>src1\<close> refers to the time model \<open>tm3\<close>, and the only time model is \<open>tm1\<close>; the error of
  the load names the state \<open>s1\<close> and its time model \<open>tm2\<close>, and neither \<open>src1\<close> nor \<open>tm3\<close>.
\<close>

theorem load_dangling_reference_counterexample:
  "read_data tagged_codec JsonAdapter two_dangling_doc =
     Inl (ValidationError ''state_data''
            [(0, ValueError ''time model'' ''tm2'' ''state'' ''s1'' ''time model'' {''tm1''})]) \<and>
   create_objects_from_configuration_data two_dangling_doc ''sources'' (parse_source tagged_codec) =
     Inr [SourceData ''src1'' ''tm3'' ''m1'' [] 0] \<and>
   create_objects_from_configuration_data two_dangling_doc ''time_models''
       (parse_time_model tagged_codec) = Inr [TimeModelData ''tm1'' 0]"
  by (simp add: run_defs two_dangling_doc_def)


section \<open>Claim C5: the queue references of a resource are checked for the production-capable variant only\<close>

text \<open>
  C5. A resource of the base shape passes \<^verbatim>\<open>check_resources\<close> exactly when its processes
  and its states are identifiers of existing processes and states, and the queue
  collection has no influence on the result. A resource of the production-capable variant
  passes exactly when, in addition, every entry of its input queues and of its output
  queues is the identifier of an existing queue; otherwise the validator raises, and when
  processes and states resolve the error names the first queue that does not exist.
\<close>

theorem resource_variant_dispatch:
  "(check_resources values (BaseResourceData rid ps ss rest) = Inr (BaseResourceData rid ps ss rest) \<longleftrightarrow>
      list_all (\<lambda>p. p \<in> get_set_of_IDs process_ID (process_data values)) ps \<and>
      list_all (\<lambda>s. s \<in> get_set_of_IDs state_ID (state_data values)) ss) \<and>
   check_resources (values\<lparr>queue_data := qs\<rparr>) (BaseResourceData rid ps ss rest) =
     check_resources values (BaseResourceData rid ps ss rest) \<and>
   (check_resources values (ProductionResourceData rid ps ss iq oq rest) =
      Inr (ProductionResourceData rid ps ss iq oq rest) \<longleftrightarrow>
      list_all (\<lambda>p. p \<in> get_set_of_IDs process_ID (process_data values)) ps \<and>
      list_all (\<lambda>s. s \<in> get_set_of_IDs state_ID (state_data values)) ss \<and>
      list_all (\<lambda>q. q \<in> get_set_of_IDs queue_ID (queue_data values)) iq \<and>
      list_all (\<lambda>q. q \<in> get_set_of_IDs queue_ID (queue_data values)) oq) \<and>
   (isl (check_resources values (ProductionResourceData rid ps ss iq oq rest)) \<longleftrightarrow>
      \<not> (list_all (\<lambda>p. p \<in> get_set_of_IDs process_ID (process_data values)) ps \<and>
         list_all (\<lambda>s. s \<in> get_set_of_IDs state_ID (state_data values)) ss \<and>
         list_all (\<lambda>q. q \<in> get_set_of_IDs queue_ID (queue_data values)) iq \<and>
         list_all (\<lambda>q. q \<in> get_set_of_IDs queue_ID (queue_data values)) oq)) \<and>
   (list_all (\<lambda>p. p \<in> get_set_of_IDs process_ID (process_data values)) ps \<and>
    list_all (\<lambda>s. s \<in> get_set_of_IDs state_ID (state_data values)) ss \<and>
    find (\<lambda>q. q \<notin> get_set_of_IDs queue_ID (queue_data values)) (iq @ oq) = Some missing \<longrightarrow>
      check_resources values (ProductionResourceData rid ps ss iq oq rest) =
        Inl (ValueError ''queue'' missing ''resource'' rid ''queue''
               (get_set_of_IDs queue_ID (queue_data values))))"
proof -
  have base: "check_resources values (BaseResourceData rid ps ss rest) = Inr (BaseResourceData rid ps ss rest) \<longleftrightarrow>
      list_all (\<lambda>p. p \<in> get_set_of_IDs process_ID (process_data values)) ps \<and>
      list_all (\<lambda>s. s \<in> get_set_of_IDs state_ID (state_data values)) ss"
    by (simp add: check_resources_Inr_iff resource_resolves_def resource_queues_def)
  have frame: "check_resources (values\<lparr>queue_data := qs\<rparr>) (BaseResourceData rid ps ss rest) =
     check_resources values (BaseResourceData rid ps ss rest)"
    by (simp add: check_resources_def Let_def split: option.splits)
  have prod: "check_resources values (ProductionResourceData rid ps ss iq oq rest) =
      Inr (ProductionResourceData rid ps ss iq oq rest) \<longleftrightarrow>
      list_all (\<lambda>p. p \<in> get_set_of_IDs process_ID (process_data values)) ps \<and>
      list_all (\<lambda>s. s \<in> get_set_of_IDs state_ID (state_data values)) ss \<and>
      list_all (\<lambda>q. q \<in> get_set_of_IDs queue_ID (queue_data values)) iq \<and>
      list_all (\<lambda>q. q \<in> get_set_of_IDs queue_ID (queue_data values)) oq"
    by (simp add: check_resources_Inr_iff resource_resolves_def resource_queues_def)
  have fails: "isl (check_resources values (ProductionResourceData rid ps ss iq oq rest)) \<longleftrightarrow>
      \<not> (check_resources values (ProductionResourceData rid ps ss iq oq rest) =
      Inr (ProductionResourceData rid ps ss iq oq rest))"
    using check_resources_cases [of "values" "ProductionResourceData rid ps ss iq oq rest"]
    by auto
  have queue: "list_all (\<lambda>p. p \<in> get_set_of_IDs process_ID (process_data values)) ps \<and>
    list_all (\<lambda>s. s \<in> get_set_of_IDs state_ID (state_data values)) ss \<and>
    find (\<lambda>q. q \<notin> get_set_of_IDs queue_ID (queue_data values)) (iq @ oq) = Some missing \<longrightarrow>
      check_resources values (ProductionResourceData rid ps ss iq oq rest) =
        Inl (ValueError ''queue'' missing ''resource'' rid ''queue''
               (get_set_of_IDs queue_ID (queue_data values)))"
    by (simp add: check_resources_def Let_def find_None_list_all [symmetric])
  show ?thesis
    using base frame prod fails queue by blast
qed

theorem resource_variant_dispatch_witness:
  "check_resources (JsonAdapter\<lparr>process_data := [ProcessData ''p1'' ''tm1'' ()]\<rparr>)
     (BaseResourceData ''r1'' [''p1''] [] ()) = Inr (BaseResourceData ''r1'' [''p1''] [] ()) \<and>
   check_resources (JsonAdapter\<lparr>process_data := [ProcessData ''p1'' ''tm1'' ()]\<rparr>)
     (ProductionResourceData ''r2'' [''p1''] [] [''q1''] [] ()) =
     Inl (ValueError ''queue'' ''q1'' ''resource'' ''r2'' ''queue'' {})"
  using resource_variant_dispatch
    [of "JsonAdapter\<lparr>process_data := [ProcessData ''p1'' ''tm1'' ()]\<rparr>" "''r1''" "[''p1'']" "[]" "()" "[]" "[]" "[]" "''q1''"]
    resource_variant_dispatch
    [of "JsonAdapter\<lparr>process_data := [ProcessData ''p1'' ''tm1'' ()]\<rparr>" "''r2''" "[''p1'']" "[]" "()" "[]" "[''q1'']" "[]" "''q1''"]
  by (simp add: JsonAdapter_def get_set_of_IDs_def)


section \<open>Claim C4: the optional list of processes of a material\<close>

text \<open>
  C4. A material without a list of processes passes \<^verbatim>\<open>check_materials\<close> exactly when
  its transport process is the identifier of an existing process, whatever else the
  process collection holds; so does a material with the empty list; a material with a list
  passes exactly when the transport process and every entry of the list exist, and
  otherwise the error names the first entry that does not. The transport process is
  checked in all three cases, and first.
\<close>

theorem material_optional_processes:
  "(check_materials values (MaterialData mid tp None rest) = Inr (MaterialData mid tp None rest) \<longleftrightarrow>
      tp \<in> get_set_of_IDs process_ID (process_data values)) \<and>
   (check_materials values (MaterialData mid tp (Some []) rest) = Inr (MaterialData mid tp (Some []) rest) \<longleftrightarrow>
      tp \<in> get_set_of_IDs process_ID (process_data values)) \<and>
   (check_materials values (MaterialData mid tp (Some ps) rest) = Inr (MaterialData mid tp (Some ps) rest) \<longleftrightarrow>
      tp \<in> get_set_of_IDs process_ID (process_data values) \<and>
      list_all (\<lambda>p. p \<in> get_set_of_IDs process_ID (process_data values)) ps) \<and>
   (tp \<in> get_set_of_IDs process_ID (process_data values) \<and>
    find (\<lambda>p. p \<notin> get_set_of_IDs process_ID (process_data values)) ps = Some missing \<longrightarrow>
      check_materials values (MaterialData mid tp (Some ps) rest) =
        Inl (ValueError ''process'' missing ''material'' mid ''process''
               (get_set_of_IDs process_ID (process_data values)))) \<and>
   (tp \<notin> get_set_of_IDs process_ID (process_data values) \<longrightarrow>
      check_materials values (MaterialData mid tp optional rest) =
        Inl (ValueError ''transport process'' tp ''material'' mid ''process''
               (get_set_of_IDs process_ID (process_data values)))) \<and>
   (setattr_material_data values [MaterialData mid tp None rest] =
      Inr (values\<lparr>material_data := [MaterialData mid tp None rest]\<rparr>) \<longleftrightarrow>
      tp \<in> get_set_of_IDs process_ID (process_data values))"
proof -
  have absent: "check_materials values (MaterialData mid tp None rest) = Inr (MaterialData mid tp None rest) \<longleftrightarrow>
      tp \<in> get_set_of_IDs process_ID (process_data values)"
    by (simp add: check_materials_Inr_iff material_resolves_def)
  have empty: "check_materials values (MaterialData mid tp (Some []) rest) = Inr (MaterialData mid tp (Some []) rest) \<longleftrightarrow>
      tp \<in> get_set_of_IDs process_ID (process_data values)"
    by (simp add: check_materials_Inr_iff material_resolves_def)
  have present: "check_materials values (MaterialData mid tp (Some ps) rest) = Inr (MaterialData mid tp (Some ps) rest) \<longleftrightarrow>
      tp \<in> get_set_of_IDs process_ID (process_data values) \<and>
      list_all (\<lambda>p. p \<in> get_set_of_IDs process_ID (process_data values)) ps"
    by (simp add: check_materials_Inr_iff material_resolves_def)
  have dangling: "tp \<in> get_set_of_IDs process_ID (process_data values) \<and>
    find (\<lambda>p. p \<notin> get_set_of_IDs process_ID (process_data values)) ps = Some missing \<longrightarrow>
      check_materials values (MaterialData mid tp (Some ps) rest) =
        Inl (ValueError ''process'' missing ''material'' mid ''process''
               (get_set_of_IDs process_ID (process_data values)))"
    by (simp add: check_materials_def Let_def)
  have transport: "tp \<notin> get_set_of_IDs process_ID (process_data values) \<longrightarrow>
      check_materials values (MaterialData mid tp optional rest) =
        Inl (ValueError ''transport process'' tp ''material'' mid ''process''
               (get_set_of_IDs process_ID (process_data values)))"
    by (simp add: check_materials_def Let_def)
  have assign: "setattr_material_data values [MaterialData mid tp None rest] =
      Inr (values\<lparr>material_data := [MaterialData mid tp None rest]\<rparr>) \<longleftrightarrow>
      tp \<in> get_set_of_IDs process_ID (process_data values)"
    by (simp add: setattr_material_data_eq material_resolves_def)
  show ?thesis
    using absent empty present dangling transport assign by blast
qed

theorem material_optional_processes_witness:
  "check_materials (JsonAdapter\<lparr>process_data := [ProcessData ''p1'' ''tm1'' ()]\<rparr>)
     (MaterialData ''m1'' ''p1'' None ()) = Inr (MaterialData ''m1'' ''p1'' None ()) \<and>
   check_materials (JsonAdapter\<lparr>process_data := [ProcessData ''p1'' ''tm1'' ()]\<rparr>)
     (MaterialData ''m1'' ''p1'' (Some []) ()) = Inr (MaterialData ''m1'' ''p1'' (Some []) ()) \<and>
   check_materials (JsonAdapter\<lparr>process_data := [ProcessData ''p1'' ''tm1'' ()]\<rparr>)
     (MaterialData ''m1'' ''p1'' (Some [''missing'']) ()) =
     Inl (ValueError ''process'' ''missing'' ''material'' ''m1'' ''process'' {''p1''}) \<and>
   check_materials (JsonAdapter\<lparr>process_data := [ProcessData ''p1'' ''tm1'' ()]\<rparr>)
     (MaterialData ''m1'' ''p2'' None ()) =
     Inl (ValueError ''transport process'' ''p2'' ''material'' ''m1'' ''process'' {''p1''})"
  using material_optional_processes
    [of "JsonAdapter\<lparr>process_data := [ProcessData ''p1'' ''tm1'' ()]\<rparr>" "''m1''" "''p1''" "()"
        "[''missing'']" "''missing''" None]
    material_optional_processes
    [of "JsonAdapter\<lparr>process_data := [ProcessData ''p1'' ''tm1'' ()]\<rparr>" "''m1''" "''p2''" "()"
        "[]" "''missing''" None]
  by (simp add: JsonAdapter_def get_set_of_IDs_def)


section \<open>Claim C3: writing a graph and reading it back\<close>




section \<open>Claim C6: identifiers are not required to be unique\<close>

text \<open>
  C6, as amended. Loading neither rejects nor merges records that share an identifier:
  whenever \<^verbatim>\<open>read_data\<close> returns, each of the eight collections of the result is the
  list of the decoded records of its section, one entity for each record and in the order
  of the document, so two records with one identifier give two entities with that
  identifier.
\<close>

theorem load_keeps_every_record:
  assumes "read_data cd self data = Inr g"
  shows "(\<exists>items. data ''time_models'' = Some (Section items) \<and>
            map (parse_time_model cd) (map snd items) = map Some (time_model_data g)) \<and>
         (\<exists>items. data ''states'' = Some (Section items) \<and>
            map (parse_state cd) (map snd items) = map Some (state_data g)) \<and>
         (\<exists>items. data ''processes'' = Some (Section items) \<and>
            map (parse_process cd) (map snd items) = map Some (process_data g)) \<and>
         (\<exists>items. data ''queues'' = Some (Section items) \<and>
            map (parse_queue cd) (map snd items) = map Some (queue_data g)) \<and>
         (\<exists>items. data ''resources'' = Some (Section items) \<and>
            map (parse_resource cd) (map snd items) = map Some (resource_data g)) \<and>
         (\<exists>items. data ''materials'' = Some (Section items) \<and>
            map (parse_material cd) (map snd items) = map Some (material_data g)) \<and>
         (\<exists>items. data ''sinks'' = Some (Section items) \<and>
            map (parse_sink cd) (map snd items) = map Some (sink_data g)) \<and>
         (\<exists>items. data ''sources'' = Some (Section items) \<and>
            map (parse_source cd) (map snd items) = map Some (source_data g))"
proof -
  from read_data_Inr_draft [OF assms] obtain n tms sts prs qs rs ms ks cs where
    decoded:
      "create_objects_from_configuration_data data ''time_models'' (parse_time_model cd) = Inr tms"
      "create_objects_from_configuration_data data ''states'' (parse_state cd) = Inr sts"
      "create_objects_from_configuration_data data ''processes'' (parse_process cd) = Inr prs"
      "create_objects_from_configuration_data data ''queues'' (parse_queue cd) = Inr qs"
      "create_objects_from_configuration_data data ''resources'' (parse_resource cd) = Inr rs"
      "create_objects_from_configuration_data data ''materials'' (parse_material cd) = Inr ms"
      "create_objects_from_configuration_data data ''sinks'' (parse_sink cd) = Inr ks"
      "create_objects_from_configuration_data data ''sources'' (parse_source cd) = Inr cs"
    and g: "g = draft_graph self n tms sts prs qs rs ms ks cs"
    by blast
  have fields: "time_model_data g = tms" "state_data g = sts" "process_data g = prs"
    "queue_data g = qs" "resource_data g = rs" "material_data g = ms" "sink_data g = ks"
    "source_data g = cs"
    by (simp_all add: g draft_graph_def)
  show ?thesis
    using decoded unfolding fields create_objects_Inr_iff by blast
qed

theorem load_keeps_every_record_witness:
  "read_data tagged_codec JsonAdapter duplicate_doc =
     Inr (scenario_graph\<lparr>time_model_data := [TimeModelData ''tm1'' 0, TimeModelData ''tm1'' 1]\<rparr>) \<and>
   (\<exists>items. duplicate_doc ''time_models'' = Some (Section items) \<and>
      map (parse_time_model tagged_codec) (map snd items) =
        [Some (TimeModelData ''tm1'' 0), Some (TimeModelData ''tm1'' 1)])"
  using load_keeps_every_record [OF duplicate_load] duplicate_load
  by simp

text \<open>
  The claim as stated fails on a document with two time model records of identifier
  \<open>tm1\<close>: the load succeeds, and the collection of time models holds both.
\<close>

theorem unique_ids_counterexample:
  "read_data tagged_codec JsonAdapter duplicate_doc =
     Inr (scenario_graph\<lparr>time_model_data := [TimeModelData ''tm1'' 0, TimeModelData ''tm1'' 1]\<rparr>) \<and>
   map tm_ID
     (time_model_data
        (scenario_graph\<lparr>time_model_data := [TimeModelData ''tm1'' 0, TimeModelData ''tm1'' 1]\<rparr>)) =
     [''tm1'', ''tm1'']"
  by (simp add: run_defs duplicate_doc_def scenario_graph_def)


section \<open>Claim C7: a missing section\<close>





section \<open>Claim C8: the flag \<^verbatim>\<open>valid_configuration\<close>\<close>

text \<open>
  C8, as amended. The flag \<^verbatim>\<open>valid_configuration\<close> is true in a new adapter, before any
  validation, and neither \<^verbatim>\<open>read_data\<close> nor the assignment of a collection writes it:
  after a successful load or assignment the flag has the value it had before.
\<close>

theorem valid_configuration_untouched:
  "valid_configuration (JsonAdapter :: 'x Adapter) \<and>
   (read_data cd (self :: 'x Adapter) data = Inr g \<longrightarrow>
      valid_configuration g = valid_configuration self) \<and>
   (setattr_time_model_data self tms = Inr g \<longrightarrow> valid_configuration g = valid_configuration self) \<and>
   (setattr_state_data self sts = Inr g \<longrightarrow> valid_configuration g = valid_configuration self) \<and>
   (setattr_process_data self prs = Inr g \<longrightarrow> valid_configuration g = valid_configuration self) \<and>
   (setattr_queue_data self qs = Inr g \<longrightarrow> valid_configuration g = valid_configuration self) \<and>
   (setattr_resource_data self rs = Inr g \<longrightarrow> valid_configuration g = valid_configuration self) \<and>
   (setattr_material_data self ms = Inr g \<longrightarrow> valid_configuration g = valid_configuration self) \<and>
   (setattr_sink_data self ks = Inr g \<longrightarrow> valid_configuration g = valid_configuration self) \<and>
   (setattr_source_data self cs = Inr g \<longrightarrow> valid_configuration g = valid_configuration self)"
proof -
  have load: "read_data cd self data = Inr g \<longrightarrow> valid_configuration g = valid_configuration self"
  proof
    assume "read_data cd self data = Inr g"
    from read_data_Inr_draft [OF this] show "valid_configuration g = valid_configuration self"
      by (auto simp: draft_graph_def)
  qed
  show ?thesis
    using load
    by (auto simp: JsonAdapter_def setattr_time_model_data_def setattr_queue_data_def
        setattr_state_data_eq setattr_process_data_eq setattr_resource_data_eq
        setattr_material_data_eq setattr_sink_data_eq setattr_source_data_eq
        split: if_splits)
qed

theorem valid_configuration_untouched_witness:
  "read_data tagged_codec JsonAdapter factory_doc = Inr factory_graph \<and>
   valid_configuration factory_graph = valid_configuration (JsonAdapter :: nat Adapter) \<and>
   valid_configuration (JsonAdapter :: nat Adapter)"
  using valid_configuration_untouched
      [of tagged_codec JsonAdapter factory_doc factory_graph "[]" "[]" "[]" "[]" "[]" "[]" "[]" "[]"]
    factory_load
  by simp

text \<open>
  The claim as stated fails twice: the flag of a new adapter is set although nothing was
  validated, and an adapter constructed with the flag false keeps it false through a
  load that succeeds.
\<close>

theorem valid_configuration_counterexample:
  "valid_configuration (JsonAdapter :: nat Adapter) \<and>
   read_data tagged_codec (JsonAdapter\<lparr>valid_configuration := False\<rparr>) scenario_doc =
     Inr (scenario_graph\<lparr>valid_configuration := False\<rparr>) \<and>
   \<not> valid_configuration (scenario_graph\<lparr>valid_configuration := False\<rparr>)"
  by (simp add: run_defs scenario_doc_def scenario_graph_def)


section \<open>Claim C9: assignment validates the assigned field\<close>

text \<open>
  C9. Assigning a list to one of the six validated collections succeeds exactly when
  every entity of the list passes the check of that collection against the current
  contents of the other collections, and then replaces that collection and nothing else;
  otherwise it raises a validation error for that field. In particular, assigning a state
  whose time model is not a current time model raises the error that names the time
  model, the state and the set of current time models: in the spec's scenario, \<open>s1\<close>
  referring to \<open>tm2\<close> against the time models \<open>{tm1}\<close>.
\<close>

theorem assignment_revalidates_field:
  "(setattr_state_data self sts = Inr g \<longleftrightarrow>
      g = self\<lparr>state_data := sts\<rparr> \<and> list_all (state_resolves self) sts) \<and>
   (setattr_process_data self prs = Inr g \<longleftrightarrow>
      g = self\<lparr>process_data := prs\<rparr> \<and> list_all (process_resolves self) prs) \<and>
   (setattr_resource_data self rs = Inr g \<longleftrightarrow>
      g = self\<lparr>resource_data := rs\<rparr> \<and> list_all (resource_resolves self) rs) \<and>
   (setattr_material_data self ms = Inr g \<longleftrightarrow>
      g = self\<lparr>material_data := ms\<rparr> \<and> list_all (material_resolves self) ms) \<and>
   (setattr_sink_data self ks = Inr g \<longleftrightarrow>
      g = self\<lparr>sink_data := ks\<rparr> \<and> list_all (sink_resolves self) ks) \<and>
   (setattr_source_data self cs = Inr g \<longleftrightarrow>
      g = self\<lparr>source_data := cs\<rparr> \<and> list_all (source_resolves self) cs) \<and>
   (\<not> list_all (state_resolves self) sts \<longrightarrow>
      (\<exists>errs. errs \<noteq> [] \<and> setattr_state_data self sts = Inl (ValidationError ''state_data'' errs))) \<and>
   (state_time_model_id s \<notin> get_set_of_IDs tm_ID (time_model_data self) \<longrightarrow>
      setattr_state_data self [s] =
        Inl (ValidationError ''state_data''
               [(0, ValueError ''time model'' (state_time_model_id s) ''state'' (state_ID s)
                      ''time model'' (get_set_of_IDs tm_ID (time_model_data self)))]))"
proof -
  have fails: "\<not> list_all (state_resolves self) sts \<longrightarrow>
      (\<exists>errs. errs \<noteq> [] \<and> setattr_state_data self sts = Inl (ValidationError ''state_data'' errs))"
  proof
    assume "\<not> list_all (state_resolves self) sts"
    then have "collection_errors
        (\<lambda>s. first_dangling ''state'' (state_ID s) (state_references self s)) sts \<noteq> []"
      by (simp add: collection_errors_Nil_iff state_dangling_None_iff)
    then show "\<exists>errs. errs \<noteq> [] \<and>
        setattr_state_data self sts = Inl (ValidationError ''state_data'' errs)"
      by (auto simp: setattr_state_data_spec split: list.splits)
  qed
  have one: "state_time_model_id s \<notin> get_set_of_IDs tm_ID (time_model_data self) \<longrightarrow>
      setattr_state_data self [s] =
        Inl (ValidationError ''state_data''
               [(0, ValueError ''time model'' (state_time_model_id s) ''state'' (state_ID s)
                      ''time model'' (get_set_of_IDs tm_ID (time_model_data self)))])"
    by (simp add: setattr_state_data_def validate_field_def check_states_def Let_def)
  show ?thesis
    using fails one
    by (auto simp: setattr_state_data_eq setattr_process_data_eq setattr_resource_data_eq
        setattr_material_data_eq setattr_sink_data_eq setattr_source_data_eq)
qed

theorem assignment_revalidates_field_witness:
  "read_data tagged_codec JsonAdapter scenario_doc = Inr scenario_graph \<and>
   setattr_state_data scenario_graph [StateData ''s1'' ''tm2'' 0] =
     Inl (ValidationError ''state_data''
            [(0, ValueError ''time model'' ''tm2'' ''state'' ''s1'' ''time model'' {''tm1''})]) \<and>
   setattr_state_data scenario_graph [StateData ''s1'' ''tm1'' 0, StateData ''s2'' ''tm1'' 1] =
     Inr (scenario_graph\<lparr>state_data := [StateData ''s1'' ''tm1'' 0, StateData ''s2'' ''tm1'' 1]\<rparr>)"
  using scenario_load
    assignment_revalidates_field [of scenario_graph
      "[StateData ''s1'' ''tm1'' 0, StateData ''s2'' ''tm1'' 1]"
      "scenario_graph\<lparr>state_data := [StateData ''s1'' ''tm1'' 0, StateData ''s2'' ''tm1'' 1]\<rparr>"
      "[]" "[]" "[]" "[]" "[]" "StateData ''s1'' ''tm2'' 0"]
  by (simp add: scenario_graph_def state_resolves_def get_set_of_IDs_def)


section \<open>Claim C10: assignment does not validate the fields that refer to the assigned one\<close>

text \<open>
  C10. Assigning the time models or the queues always succeeds, since these fields have no
  validator; assigning a sublist of the current processes or materials of a graph whose
  processes or materials resolve succeeds as well, since only their own references are
  checked. None of these assignments changes \<^verbatim>\<open>valid_configuration\<close>. Yet a state whose
  time model is no longer among the time models, a resource one of whose processes is no
  longer among the processes, a sink one of whose queues is no longer among the queues, or
  a source whose material is no longer among the materials leaves the graph with a
  reference that does not resolve.
\<close>

theorem assignment_skips_referring_fields:
  "setattr_time_model_data self tms = Inr (self\<lparr>time_model_data := tms\<rparr>) \<and>
   setattr_queue_data self qs = Inr (self\<lparr>queue_data := qs\<rparr>) \<and>
   (list_all (process_resolves self) (process_data self) \<longrightarrow>
      setattr_process_data self (filter keep_process (process_data self)) =
        Inr (self\<lparr>process_data := filter keep_process (process_data self)\<rparr>)) \<and>
   (list_all (material_resolves self) (material_data self) \<longrightarrow>
      setattr_material_data self (filter keep_material (material_data self)) =
        Inr (self\<lparr>material_data := filter keep_material (material_data self)\<rparr>)) \<and>
   valid_configuration (self\<lparr>time_model_data := tms\<rparr>) = valid_configuration self \<and>
   valid_configuration (self\<lparr>queue_data := qs\<rparr>) = valid_configuration self \<and>
   valid_configuration (self\<lparr>process_data := prs\<rparr>) = valid_configuration self \<and>
   valid_configuration (self\<lparr>material_data := ms\<rparr>) = valid_configuration self \<and>
   (s \<in> set (state_data self) \<and> state_time_model_id s \<notin> get_set_of_IDs tm_ID tms \<longrightarrow>
      \<not> references_resolve (self\<lparr>time_model_data := tms\<rparr>)) \<and>
   (r \<in> set (resource_data self) \<and> p \<in> set (resource_processes r) \<and>
    p \<notin> get_set_of_IDs process_ID prs \<longrightarrow>
      \<not> references_resolve (self\<lparr>process_data := prs\<rparr>)) \<and>
   (k \<in> set (sink_data self) \<and> q \<in> set (sink_input_queues k) \<and>
    q \<notin> get_set_of_IDs queue_ID qs \<longrightarrow>
      \<not> references_resolve (self\<lparr>queue_data := qs\<rparr>)) \<and>
   (c \<in> set (source_data self) \<and> source_material_type c \<notin> get_set_of_IDs material_ID ms \<longrightarrow>
      \<not> references_resolve (self\<lparr>material_data := ms\<rparr>))"
proof -
  have processes: "list_all (process_resolves self) (process_data self) \<longrightarrow>
      setattr_process_data self (filter keep_process (process_data self)) =
        Inr (self\<lparr>process_data := filter keep_process (process_data self)\<rparr>)"
    by (simp add: setattr_process_data_eq list_all_filter)
  have materials: "list_all (material_resolves self) (material_data self) \<longrightarrow>
      setattr_material_data self (filter keep_material (material_data self)) =
        Inr (self\<lparr>material_data := filter keep_material (material_data self)\<rparr>)"
    by (simp add: setattr_material_data_eq list_all_filter)
  have state: "s \<in> set (state_data self) \<and> state_time_model_id s \<notin> get_set_of_IDs tm_ID tms \<longrightarrow>
      \<not> references_resolve (self\<lparr>time_model_data := tms\<rparr>)"
    by (auto simp: references_resolve_def state_resolves_def list_all_iff)
  have resource: "r \<in> set (resource_data self) \<and> p \<in> set (resource_processes r) \<and>
    p \<notin> get_set_of_IDs process_ID prs \<longrightarrow>
      \<not> references_resolve (self\<lparr>process_data := prs\<rparr>)"
    by (auto simp: references_resolve_def resource_resolves_def list_all_iff)
  have sink: "k \<in> set (sink_data self) \<and> q \<in> set (sink_input_queues k) \<and>
    q \<notin> get_set_of_IDs queue_ID qs \<longrightarrow>
      \<not> references_resolve (self\<lparr>queue_data := qs\<rparr>)"
    by (auto simp: references_resolve_def sink_resolves_def list_all_iff)
  have source: "c \<in> set (source_data self) \<and> source_material_type c \<notin> get_set_of_IDs material_ID ms \<longrightarrow>
      \<not> references_resolve (self\<lparr>material_data := ms\<rparr>)"
    by (auto simp: references_resolve_def source_resolves_def list_all_iff)
  show ?thesis
    using processes materials state resource sink source
    by (simp add: setattr_time_model_data_def setattr_queue_data_def)
qed

theorem assignment_skips_referring_fields_witness:
  "references_resolve factory_graph \<and>
   setattr_time_model_data factory_graph [] = Inr (factory_graph\<lparr>time_model_data := []\<rparr>) \<and>
   \<not> references_resolve (factory_graph\<lparr>time_model_data := []\<rparr>) \<and>
   valid_configuration (factory_graph\<lparr>time_model_data := []\<rparr>) \<and>
   setattr_process_data factory_graph [] = Inr (factory_graph\<lparr>process_data := []\<rparr>) \<and>
   \<not> references_resolve (factory_graph\<lparr>process_data := []\<rparr>) \<and>
   setattr_queue_data factory_graph [] = Inr (factory_graph\<lparr>queue_data := []\<rparr>) \<and>
   \<not> references_resolve (factory_graph\<lparr>queue_data := []\<rparr>) \<and>
   setattr_material_data factory_graph [] = Inr (factory_graph\<lparr>material_data := []\<rparr>) \<and>
   \<not> references_resolve (factory_graph\<lparr>material_data := []\<rparr>)"
proof -
  have members: "StateData ''s1'' ''tm1'' 0 \<in> set (state_data factory_graph)"
    "BaseResourceData ''r2'' [''p1''] [] 0 \<in> set (resource_data factory_graph)"
    "SinkData ''k1'' ''m1'' [''q1''] 0 \<in> set (sink_data factory_graph)"
    "SourceData ''c1'' ''tm1'' ''m1'' [''q1''] 0 \<in> set (source_data factory_graph)"
    by (simp_all add: factory_graph_def)
  have valid: "valid_configuration factory_graph"
    by (simp add: factory_graph_def)
  have resolves: "list_all (process_resolves factory_graph) (process_data factory_graph)"
    "list_all (material_resolves factory_graph) (material_data factory_graph)"
    using factory_resolves by (simp_all add: references_resolve_def)
  show ?thesis
    using assignment_skips_referring_fields
      [of factory_graph "[]" "[]" "\<lambda>p. False" "\<lambda>m. False" "[]" "[]"
        "StateData ''s1'' ''tm1'' 0" "BaseResourceData ''r2'' [''p1''] [] 0" "''p1''"
        "SinkData ''k1'' ''m1'' [''q1''] 0" "''q1''" "SourceData ''c1'' ''tm1'' ''m1'' [''q1''] 0"]
      members valid resolves factory_resolves
    by (simp add: get_set_of_IDs_def)
qed

end
